theory Spec2Isabelle
  imports Main
begin

section \<open>pickyport: a shallow embedding of \<^verbatim>\<open>pickyport.py\<close>\<close>

text \<open>
  The script turns one entry of a YAML configuration into a list of
  (description, shell command) pairs and runs them. The embedding keeps the
  Python names. Everything the script reads from outside is a field of
  \<open>os_env\<close>; everything it does to the outside (console lines, executed
  commands, deleted files) is returned in \<open>portage_result\<close>. An uncaught
  Python exception is \<open>Inl\<close>.

  Taken from the types rather than checked: a connection descriptor has its
  four keys and their values are strings; \<open>create_dest_db\<close> and \<open>fetch_data\<close>
  are booleans; \<open>ignore_tables\<close> and \<open>update\<close> are lists of strings;
  \<open>test_users\<close> is a list of dictionaries. \<^verbatim>\<open>Popen\<close> and \<^verbatim>\<open>os.remove\<close>
  are taken not to raise.
\<close>

subsection \<open>Values, errors, the operating system\<close>

datatype error = KeyError string | TypeError | Exception string

text \<open>
  The YAML scalars a test user's fields can hold. \<open>str_of\<close> is what Python's
  \<^verbatim>\<open>'%s' % v\<close> prints, \<open>PNone\<close> being a key that is present with a null value.
\<close>

datatype pyval = PStr string | PNone | PBool bool

fun str_of :: "pyval \<Rightarrow> string" where
  "str_of (PStr s) = s"
| "str_of PNone = ''None''"
| "str_of (PBool b) = (if b then ''True'' else ''False'')"

fun str_of_opt :: "string option \<Rightarrow> string" where
  "str_of_opt None = ''None''"
| "str_of_opt (Some s) = s"

type_synonym pydict = "string \<rightharpoonup> pyval"

definition getitem :: "pydict \<Rightarrow> string \<Rightarrow> error + pyval" where
  "getitem d k = (case d k of None \<Rightarrow> Inl (KeyError k) | Some v \<Rightarrow> Inr v)"

definition bind_err :: "error + 'a \<Rightarrow> ('a \<Rightarrow> error + 'b) \<Rightarrow> error + 'b" where
  "bind_err m f = (case m of Inl e \<Rightarrow> Inl e | Inr x \<Rightarrow> f x)"

text \<open>
  \<open>env_PATH\<close> is \<^verbatim>\<open>os.environ["PATH"]\<close> (absent: \<open>None\<close>); \<open>isfile\<close> and
  \<open>access_X_OK\<close> are \<^verbatim>\<open>os.path.isfile\<close> and \<^verbatim>\<open>os.access(_, os.X_OK)\<close>;
  \<open>tmpname k\<close> is the name \<^verbatim>\<open>NamedTemporaryFile\<close> gives to the \<open>k\<close>-th
  temporary file of a porter; \<open>popen_stderr i c\<close> is the standard error text of
  running command \<open>c\<close> as the \<open>i\<close>-th step of the run.
\<close>

record os_env =
  env_PATH :: "string option"
  isfile :: "string \<Rightarrow> bool"
  access_X_OK :: "string \<Rightarrow> bool"
  tmpname :: "nat \<Rightarrow> string"
  popen_stderr :: "nat \<Rightarrow> string \<Rightarrow> string"

abbreviation nl :: char where "nl \<equiv> CHR 0x0A"
abbreviation dq :: char where "dq \<equiv> CHR 0x22"
abbreviation sq :: char where "sq \<equiv> CHR 0x27"

subsection \<open>String helpers of Python used by the script\<close>

fun startswith :: "string \<Rightarrow> string \<Rightarrow> bool" where
  "startswith s [] = True"
| "startswith [] (p # ps) = False"
| "startswith (c # cs) (p # ps) = (c = p \<and> startswith cs ps)"

text \<open>\<open>py_in sub s\<close> is Python's \<^verbatim>\<open>sub in s\<close> on strings.\<close>

fun py_in :: "string \<Rightarrow> string \<Rightarrow> bool" where
  "py_in sub [] = (sub = [])"
| "py_in sub (c # cs) = (startswith (c # cs) sub \<or> py_in sub cs)"

text \<open>\<open>split_sep sep s\<close> is \<^verbatim>\<open>s.split(sep)\<close> for a one-character separator.\<close>

fun split_sep :: "char \<Rightarrow> string \<Rightarrow> string list" where
  "split_sep sep [] = [[]]"
| "split_sep sep (c # cs) =
     (if c = sep then [] # split_sep sep cs
      else (case split_sep sep cs of
              [] \<Rightarrow> [[c]]
            | w # ws \<Rightarrow> (c # w) # ws))"

definition strip_char :: "char \<Rightarrow> string \<Rightarrow> string" where
  "strip_char q s = rev (dropWhile (\<lambda>c. c = q) (rev (dropWhile (\<lambda>c. c = q) s)))"

text \<open>\<^verbatim>\<open>os.path.join(a, p)\<close> of posixpath, for two components.\<close>

definition path_join :: "string \<Rightarrow> string \<Rightarrow> string" where
  "path_join a p =
     (if startswith p ''/'' then p
      else if a = [] \<or> last a = CHR ''/'' then a @ p
      else a @ ''/'' @ p)"

subsection \<open>\<^verbatim>\<open>which\<close>\<close>

definition is_exe :: "os_env \<Rightarrow> string \<Rightarrow> bool" where
  "is_exe os abs_path = (isfile os abs_path \<and> access_X_OK os abs_path)"

fun which_loop :: "os_env \<Rightarrow> string \<Rightarrow> string list \<Rightarrow> string option" where
  "which_loop os program [] = None"
| "which_loop os program (os_path # rest) =
     (let exe_file = path_join (strip_char dq os_path) program
      in if is_exe os exe_file then Some exe_file
         else which_loop os program rest)"

text \<open>
  \<^verbatim>\<open>os.path.split(program)\<close> has a non-empty head exactly when \<open>program\<close>
  contains a slash.
\<close>

definition which :: "os_env \<Rightarrow> string \<Rightarrow> error + string option" where
  "which os program =
     (if CHR ''/'' \<in> set program
      then Inr (if is_exe os program then Some program else None)
      else (case env_PATH os of
              None \<Rightarrow> Inl (KeyError ''PATH'')
            | Some p \<Rightarrow> Inr (which_loop os program (split_sep CHR '':'' p))))"

subsection \<open>The configuration and the porter object\<close>

text \<open>
  A connection descriptor carries the four keys the script reads from it. A
  test user is kept as the dictionary it is, since the script indexes it
  without checking. \<open>dest\<close> in the configuration is one descriptor or a list.
  The optional keys of a portage entry are \<open>option\<close>s: \<open>None\<close> is an absent key.
\<close>

record conn =
  c_host :: string
  c_user :: string
  c_password :: string
  c_name :: string

datatype dest_val = DOne conn | DList "conn list"

record port_info =
  pi_source :: conn
  pi_dest :: dest_val
  pi_create_dest_db :: "bool option"
  pi_test_users :: "pydict list option"
  pi_fetch_data :: "bool option"
  pi_ignore_tables :: "string list option"
  pi_update :: "string list option"

record porter =
  quiet :: bool
  debug :: bool
  dry_run :: bool
  source :: "conn option"
  dest :: "conn list"
  test_users :: "pydict list"
  create_dest_db :: bool
  fetch_data :: bool
  ignore_tables :: "string list"
  temp_files :: "string list"
  update_scripts :: "string list"
  mysqldump :: "string option"
  mysql :: "string option"

type_synonym step = "string \<times> string"

text \<open>
  \<^verbatim>\<open>BasePorter.__init__\<close>. The two client paths belong to the subclass and are
  set by its constructor; they start as \<open>None\<close> here.
\<close>

definition BasePorter_init :: porter where
  "BasePorter_init =
     \<lparr> quiet = False, debug = False, dry_run = False, source = None, dest = [],
       test_users = [], create_dest_db = False, fetch_data = True,
       ignore_tables = [], temp_files = [], update_scripts = [],
       mysqldump = None, mysql = None \<rparr>"

definition set_variables :: "porter \<Rightarrow> port_info \<Rightarrow> bool \<Rightarrow> bool \<Rightarrow> bool \<Rightarrow> porter" where
  "set_variables self info q d dr =
     (let s1 = self\<lparr> quiet := q, debug := d, dry_run := dr,
                    source := Some (pi_source info),
                    dest := (case pi_dest info of DOne c \<Rightarrow> [c] | DList cs \<Rightarrow> cs) \<rparr>;
          s2 = (case pi_create_dest_db info of None \<Rightarrow> s1
                | Some b \<Rightarrow> s1\<lparr> create_dest_db := b \<rparr>);
          s3 = (case pi_test_users info of None \<Rightarrow> s2
                | Some us \<Rightarrow> s2\<lparr> test_users := us \<rparr>);
          s4 = (case pi_fetch_data info of None \<Rightarrow> s3
                | Some b \<Rightarrow> s3\<lparr> fetch_data := b \<rparr>);
          s5 = (case pi_ignore_tables info of None \<Rightarrow> s4
                | Some ts \<Rightarrow> s4\<lparr> ignore_tables := ts \<rparr>);
          s6 = (case pi_update info of None \<Rightarrow> s5
                | Some us \<Rightarrow> s5\<lparr> update_scripts := us \<rparr>)
      in s6)"

text \<open>\<^verbatim>\<open>MySQLPorter.__init__\<close>, with its two checks as they are written.\<close>

definition MySQLPorter_init ::
  "os_env \<Rightarrow> port_info \<Rightarrow> bool \<Rightarrow> bool \<Rightarrow> bool \<Rightarrow> error + porter" where
  "MySQLPorter_init os info q d dr =
     bind_err (which os ''mysqldump'') (\<lambda>md.
       if md = None then Inl (Exception ''Must have mysqldump executable in PATH'')
       else bind_err (which os ''mysql'') (\<lambda>my.
         if md = None then Inl (Exception ''Must have mysql executable in PATH'')
         else Inr (set_variables (BasePorter_init\<lparr> mysqldump := md, mysql := my \<rparr>)
                     info q d dr)))"

definition get_temporary_file :: "os_env \<Rightarrow> porter \<Rightarrow> string \<times> porter" where
  "get_temporary_file os self =
     (let file_name = tmpname os (length (temp_files self))
      in (file_name, self\<lparr> temp_files := temp_files self @ [file_name] \<rparr>))"

subsection \<open>The MySQL renderers\<close>

text \<open>
  \<^verbatim>\<open>create_dump_command\<close>. The loop over \<open>ignore_tables\<close> is outside the
  three-way choice of the data flag, as in the source. Indexing \<open>self.source\<close>
  before \<open>set_variables\<close> has stored it is Python's \<^verbatim>\<open>TypeError\<close>.
\<close>

fun ignore_loop :: "string \<Rightarrow> string list \<Rightarrow> string \<Rightarrow> string" where
  "ignore_loop src_name [] ignored_tables = ignored_tables"
| "ignore_loop src_name (ignore # rest) ignored_tables =
     ignore_loop src_name rest
       (ignored_tables @ ''--ignore-table='' @ src_name @ ''.'' @ ignore @ '' '')"

definition create_dump_command :: "porter \<Rightarrow> bool \<Rightarrow> string \<Rightarrow> error + step" where
  "create_dump_command self schema_only output_file =
     (case source self of
        None \<Rightarrow> Inl TypeError
      | Some src \<Rightarrow>
        (let (data_flag, dump_type) =
               (if schema_only then (''--no-data'', ''empty schema'')
                else if ignore_tables self \<noteq> []
                then (''--no-create-info --complete-insert'', ''selected data'')
                else (''--complete-insert'', ''all tables and data''));
             ignored_tables = ignore_loop (c_name src) (ignore_tables self) [];
             dump_cmd = str_of_opt (mysqldump self)
                        @ '' --lock-tables=false --routines=true '' @ data_flag
                        @ '' '' @ ignored_tables @ '' --result-file='' @ output_file @ '' '';
             dump_cmd2 = dump_cmd @ ''-h'' @ c_host src @ '' -u'' @ c_user src
                         @ '' -p'' @ c_password src @ '' '' @ c_name src;
             dump_echo = ''Dumping '' @ dump_type @ '' from '' @ c_host src @ ''.''
                         @ c_name src @ ''...''
         in Inr (dump_echo, dump_cmd2)))"

definition load_step :: "porter \<Rightarrow> string \<Rightarrow> conn \<Rightarrow> step" where
  "load_step self input_file d =
     (let load_cmd = str_of_opt (mysql self) @ '' -h'' @ c_host d @ '' -u'' @ c_user d
                     @ '' -p'' @ c_password d @ '' '' @ c_name d @ '' < '' @ input_file;
          load_echo = ''Loading '' @ input_file @ '' on '' @ c_name d @ ''.''
                      @ c_host d @ ''...''
      in (load_echo, load_cmd))"

fun load_loop :: "porter \<Rightarrow> string \<Rightarrow> conn list \<Rightarrow> step list \<Rightarrow> step list" where
  "load_loop self input_file [] load_commands = load_commands"
| "load_loop self input_file (d # ds) load_commands =
     load_loop self input_file ds (load_commands @ [load_step self input_file d])"

definition create_load_commands :: "porter \<Rightarrow> string \<Rightarrow> step list" where
  "create_load_commands self input_file = load_loop self input_file (dest self) []"

definition create_step :: "porter \<Rightarrow> conn \<Rightarrow> step" where
  "create_step self d =
     (let create_sql = ''DROP DATABASE IF EXISTS '' @ c_name d @ ''; CREATE DATABASE ''
                       @ c_name d @ '';'';
          create_cmd = str_of_opt (mysql self) @ '' -h'' @ c_host d @ '' -u'' @ c_user d
                       @ '' -p'' @ c_password d @ '' -e '' @ [sq] @ create_sql @ [sq];
          create_echo = ''Creating '' @ c_name d @ '' on '' @ c_host d @ ''...''
      in (create_echo, create_cmd))"

fun create_db_loop :: "porter \<Rightarrow> conn list \<Rightarrow> step list \<Rightarrow> step list" where
  "create_db_loop self [] create_commands = create_commands"
| "create_db_loop self (d # ds) create_commands =
     create_db_loop self ds (create_commands @ [create_step self d])"

definition create_db_commands :: "porter \<Rightarrow> step list" where
  "create_db_commands self = create_db_loop self (dest self) []"

text \<open>
  \<^verbatim>\<open>create_grant_commands\<close>. \<open>test_user['permissions']\<close> is read before the
  loop over the destinations, \<open>test_user['user']\<close> and
  \<open>test_user['password']\<close> inside it; each is a \<^verbatim>\<open>KeyError\<close> when the key is
  absent.
\<close>

definition grant_privileges :: "pyval \<Rightarrow> string" where
  "grant_privileges perm =
     (if perm = PStr ''write'' then ''SELECT, INSERT, UPDATE, DELETE, EXECUTE''
      else if perm = PStr ''admin'' then ''ALL''
      else ''SELECT'')"

definition grant_step :: "porter \<Rightarrow> pydict \<Rightarrow> string \<Rightarrow> conn \<Rightarrow> error + step" where
  "grant_step self test_user permissions d =
     bind_err (getitem test_user ''user'') (\<lambda>u.
     bind_err (getitem test_user ''password'') (\<lambda>pw.
     bind_err (getitem test_user ''permissions'') (\<lambda>perm.
       (let grant_sql = ''GRANT '' @ permissions @ '' on '' @ c_name d @ ''.* to '' @ [sq]
                        @ str_of u @ [sq] @ ''@'' @ [sq] @ ''%'' @ [sq]
                        @ '' IDENTIFIED BY '' @ [sq] @ str_of pw @ [sq]
                        @ ''; FLUSH PRIVILEGES;'';
            grant_cmd = str_of_opt (mysql self) @ '' -h'' @ c_host d @ '' -u'' @ c_user d
                        @ '' -p'' @ c_password d @ '' -e '' @ [dq] @ grant_sql @ [dq];
            grant_echo = ''Granting '' @ str_of u @ '' '' @ str_of perm
                         @ '' permission on '' @ c_host d @ ''.'' @ c_name d @ ''...''
        in Inr (grant_echo, grant_cmd)))))"

fun grant_dest_loop ::
  "porter \<Rightarrow> pydict \<Rightarrow> string \<Rightarrow> conn list \<Rightarrow> step list \<Rightarrow> error + step list" where
  "grant_dest_loop self test_user permissions [] grant_commands = Inr grant_commands"
| "grant_dest_loop self test_user permissions (d # ds) grant_commands =
     bind_err (grant_step self test_user permissions d) (\<lambda>st.
       grant_dest_loop self test_user permissions ds (grant_commands @ [st]))"

fun grant_user_loop :: "porter \<Rightarrow> pydict list \<Rightarrow> step list \<Rightarrow> error + step list" where
  "grant_user_loop self [] grant_commands = Inr grant_commands"
| "grant_user_loop self (test_user # rest) grant_commands =
     bind_err (getitem test_user ''permissions'') (\<lambda>perm.
     bind_err (grant_dest_loop self test_user (grant_privileges perm) (dest self)
                 grant_commands) (\<lambda>cmds.
       grant_user_loop self rest cmds))"

definition create_grant_commands :: "porter \<Rightarrow> error + step list" where
  "create_grant_commands self = grant_user_loop self (test_users self) []"

text \<open>
  \<^verbatim>\<open>create_update_commands\<close> prints its diagnostic itself, whatever the
  \<open>quiet\<close> flag says; the console is the second component.
\<close>

definition update_step :: "porter \<Rightarrow> string \<Rightarrow> conn \<Rightarrow> step" where
  "update_step self update d =
     (let create_cmd = str_of_opt (mysql self) @ '' -h'' @ c_host d @ '' -u'' @ c_user d
                       @ '' -p'' @ c_password d @ '' '' @ c_name d @ '' < '' @ update;
          create_echo = ''Applying '' @ update @ '' to '' @ c_host d @ ''.''
                        @ c_name d @ ''...''
      in (create_echo, create_cmd))"

fun update_dest_loop :: "porter \<Rightarrow> string \<Rightarrow> conn list \<Rightarrow> step list \<Rightarrow> step list" where
  "update_dest_loop self update [] update_commands = update_commands"
| "update_dest_loop self update (d # ds) update_commands =
     update_dest_loop self update ds (update_commands @ [update_step self update d])"

definition missing_message :: "string \<Rightarrow> string" where
  "missing_message update = ''ERROR: '' @ update @ '' does not exist!''"

fun update_loop ::
  "os_env \<Rightarrow> porter \<Rightarrow> string list \<Rightarrow> step list \<times> string list \<Rightarrow> step list \<times> string list" where
  "update_loop os self [] (update_commands, console) = (update_commands, console)"
| "update_loop os self (update # rest) (update_commands, console) =
     (if \<not> isfile os update
      then update_loop os self rest (update_commands, console @ [missing_message update])
      else update_loop os self rest
             (update_dest_loop self update (dest self) update_commands, console))"

definition create_update_commands ::
  "os_env \<Rightarrow> porter \<Rightarrow> string list \<Rightarrow> step list \<times> string list" where
  "create_update_commands os self console =
     update_loop os self (update_scripts self) ([], console)"

subsection \<open>\<^verbatim>\<open>do_portage\<close>: planning\<close>

text \<open>
  Lines 179 to 194: the dump and load commands, appended to \<open>cmd_list\<close>. The
  porter comes back with the temporary files it has registered.
\<close>

definition transfer_commands ::
  "os_env \<Rightarrow> porter \<Rightarrow> step list \<Rightarrow> error + (step list \<times> porter)" where
  "transfer_commands os self cmd_list =
     (if fetch_data self then
        (if ignore_tables self \<noteq> [] then
           (let (schema_file, s1) = get_temporary_file os self;
                (data_file, s2) = get_temporary_file os s1
            in bind_err (create_dump_command s2 True schema_file) (\<lambda>dump1.
               let c1 = cmd_list @ [dump1];
                   c2 = c1 @ create_load_commands s2 schema_file
               in bind_err (create_dump_command s2 False data_file) (\<lambda>dump2.
                  let c3 = c2 @ [dump2];
                      c4 = c3 @ create_load_commands s2 data_file
                  in Inr (c4, s2))))
         else
           (let (schema_data_file, s1) = get_temporary_file os self
            in bind_err (create_dump_command s1 False schema_data_file) (\<lambda>dump1.
               let c1 = cmd_list @ [dump1];
                   c2 = c1 @ create_load_commands s1 schema_data_file
               in Inr (c2, s1))))
      else
        (let (schema_file, s1) = get_temporary_file os self
         in bind_err (create_dump_command s1 True schema_file) (\<lambda>dump1.
            let c1 = cmd_list @ [dump1];
                c2 = c1 @ create_load_commands s1 schema_file
            in Inr (c2, s1))))"

text \<open>
  Lines 171 to 197: the whole command list, the porter after planning and what
  planning has printed.
\<close>

definition plan_commands ::
  "os_env \<Rightarrow> porter \<Rightarrow> error + (step list \<times> porter \<times> string list)" where
  "plan_commands os self =
     (let cmd_list1 = (if create_dest_db self then [] @ create_db_commands self else [])
      in bind_err (if test_users self \<noteq> []
                   then bind_err (create_grant_commands self) (\<lambda>g. Inr (cmd_list1 @ g))
                   else Inr cmd_list1) (\<lambda>cmd_list2.
         bind_err (transfer_commands os self cmd_list2) (\<lambda>(cmd_list3, s3).
           if update_scripts s3 \<noteq> []
           then (let (u, console) = create_update_commands os s3 []
                 in Inr (cmd_list3 @ u, s3, console))
           else Inr (cmd_list3, s3, []))))"

subsection \<open>\<^verbatim>\<open>do_portage\<close>: running and cleaning up\<close>

text \<open>
  Lines 224 to 226 iterate over \<open>self.temp_files\<close> while removing from it.
  Python's list iterator keeps an index \<open>i\<close> into the list as it is now, and
  \<^verbatim>\<open>list.remove\<close> deletes the first equal element.
\<close>

function remove_loop :: "nat \<Rightarrow> string \<Rightarrow> string list \<Rightarrow> string list" where
  "remove_loop i cmd tfs =
     (if i < length tfs
      then (if py_in (tfs ! i) cmd
            then remove_loop (Suc i) cmd (remove1 (tfs ! i) tfs)
            else remove_loop (Suc i) cmd tfs)
      else tfs)"
  by pat_completeness auto
termination
  by (relation "measure (\<lambda>(i, cmd, tfs). length tfs - i)") (auto simp: length_remove1)

definition start_banner :: "bool \<Rightarrow> string" where
  "start_banner dr =
     (if dr then ''==============='' @ [nl] @ ''Starting portage DRY RUN'' @ [nl]
                 @ ''===============''
      else ''==============='' @ [nl] @ ''Starting portage'' @ [nl] @ ''==============='')"

definition separator :: string where
  "separator = ''-------------------'' @ [nl]"

text \<open>
  The state of the run: \<open>self.temp_files\<close>, the console (one entry per
  \<^verbatim>\<open>print\<close>) and the commands handed to \<^verbatim>\<open>Popen\<close> so far.
\<close>

record run_state =
  rs_temp_files :: "string list"
  rs_console :: "string list"
  rs_executed :: "string list"

definition print_line :: "string \<Rightarrow> run_state \<Rightarrow> run_state" where
  "print_line s st = st\<lparr> rs_console := rs_console st @ [s] \<rparr>"

text \<open>One turn of the loop of lines 205 to 229, for the \<open>i\<close>-th command.\<close>

definition run_step :: "os_env \<Rightarrow> porter \<Rightarrow> nat \<Rightarrow> step \<Rightarrow> run_state \<Rightarrow> run_state" where
  "run_step os self i cmd st =
     (let st1 = (if \<not> quiet self then print_line (fst cmd) st else st);
          st2 = (if debug self \<or> dry_run self then print_line (snd cmd) st1 else st1);
          st3 = (if \<not> dry_run self
                 then (let output = popen_stderr os i (snd cmd);
                           st2a = st2\<lparr> rs_executed := rs_executed st2 @ [snd cmd] \<rparr>
                       in if py_in ''ERROR'' output
                          then (let st2b = (if \<not> debug self then print_line (snd cmd) st2a
                                            else st2a);
                                    st2c = print_line output st2b
                                in st2c\<lparr> rs_temp_files :=
                                           remove_loop 0 (snd cmd) (rs_temp_files st2c) \<rparr>)
                          else st2a)
                 else st2);
          st4 = (if \<not> quiet self then print_line separator st3 else st3)
      in st4)"

fun run_loop :: "os_env \<Rightarrow> porter \<Rightarrow> nat \<Rightarrow> step list \<Rightarrow> run_state \<Rightarrow> run_state" where
  "run_loop os self i [] st = st"
| "run_loop os self i (cmd # rest) st = run_loop os self (Suc i) rest (run_step os self i cmd st)"

text \<open>
  What a run leaves behind: the commands it planned, the console, the
  commands it executed, the files given to \<^verbatim>\<open>os.remove\<close> in order, and
  \<open>self.temp_files\<close> at the end.
\<close>

record portage_result =
  res_cmd_list :: "step list"
  res_console :: "string list"
  res_executed :: "string list"
  res_removed :: "string list"
  res_temp_files :: "string list"

definition do_portage :: "os_env \<Rightarrow> porter \<Rightarrow> error + portage_result" where
  "do_portage os self =
     bind_err (plan_commands os self) (\<lambda>(cmd_list, s, console0).
       let st0 = \<lparr> rs_temp_files = temp_files s, rs_console = console0, rs_executed = [] \<rparr>;
           st1 = (if \<not> quiet s then print_line (start_banner (dry_run s)) st0 else st0);
           st2 = run_loop os s 0 cmd_list st1;
           st3 = (if \<not> debug s \<and> \<not> quiet s
                  then print_line ''Removing temp files...'' st2 else st2);
           removed = (if \<not> debug s then rs_temp_files st3 else []);
           st4 = (if \<not> quiet s then print_line (''Portage complete!'' @ [nl, nl]) st3
                  else st3)
       in Inr \<lparr> res_cmd_list = cmd_list, res_console = rs_console st4,
                 res_executed = rs_executed st4, res_removed = removed,
                 res_temp_files = rs_temp_files st4 \<rparr>)"

text \<open>
  Lines 433 and 438 of the main block, for an entry whose \<open>db_type\<close> is absent
  or \<open>mysql\<close>: build the porter, then run it.
\<close>

definition main_portage ::
  "os_env \<Rightarrow> port_info \<Rightarrow> bool \<Rightarrow> bool \<Rightarrow> bool \<Rightarrow> error + portage_result" where
  "main_portage os info q d dr = bind_err (MySQLPorter_init os info q d dr) (do_portage os)"

subsection \<open>Vocabulary for the statements\<close>

text \<open>The exclusion flag of one table, as the dump command spells it.\<close>

definition ignore_flag :: "string \<Rightarrow> string \<Rightarrow> string" where
  "ignore_flag src_name t = ''--ignore-table='' @ src_name @ ''.'' @ t @ '' ''"

text \<open>
  The commands of a plan whose error output contains \<^verbatim>\<open>ERROR\<close>, when the
  plan is run from step number \<open>i\<close>.
\<close>

fun failed_commands :: "os_env \<Rightarrow> nat \<Rightarrow> step list \<Rightarrow> string list" where
  "failed_commands os i [] = []"
| "failed_commands os i (cmd # rest) =
     (if py_in ''ERROR'' (popen_stderr os i (snd cmd))
      then snd cmd # failed_commands os (Suc i) rest
      else failed_commands os (Suc i) rest)"

subsection \<open>Concrete inputs\<close>

definition ex_source :: conn where
  "ex_source = \<lparr> c_host = ''src'', c_user = ''root'', c_password = ''pw'', c_name = ''shop'' \<rparr>"

definition ex_dest :: conn where
  "ex_dest = \<lparr> c_host = ''dst'', c_user = ''adm'', c_password = ''pw2'', c_name = ''test'' \<rparr>"

definition ex_dest2 :: conn where
  "ex_dest2 = \<lparr> c_host = ''dst2'', c_user = ''adm'', c_password = ''pw3'', c_name = ''test2'' \<rparr>"

text \<open>Both clients are in \<^verbatim>\<open>/usr/bin\<close>; every command runs silently.\<close>

definition ex_os :: os_env where
  "ex_os = \<lparr> env_PATH = Some ''/usr/bin'',
             isfile = (\<lambda>p. p \<in> {''/usr/bin/mysqldump'', ''/usr/bin/mysql'', ''fix.sql''}),
             access_X_OK = (\<lambda>p. True),
             tmpname = (\<lambda>k. if k = 0 then ''/tmp/a.sql'' else ''/tmp/b.sql''),
             popen_stderr = (\<lambda>i c. []) \<rparr>"

text \<open>The same machine without the \<^verbatim>\<open>mysql\<close> client.\<close>

definition ex_os_no_mysql :: os_env where
  "ex_os_no_mysql = ex_os\<lparr> isfile := (\<lambda>p. p = ''/usr/bin/mysqldump'') \<rparr>"

text \<open>The same machine, where the first command of a run reports an error.\<close>

definition ex_os_failing :: os_env where
  "ex_os_failing =
     ex_os\<lparr> popen_stderr := (\<lambda>i c. if i = 0 then ''ERROR 1045: denied'' else []) \<rparr>"

definition ex_info :: port_info where
  "ex_info = \<lparr> pi_source = ex_source, pi_dest = DOne ex_dest, pi_create_dest_db = None,
               pi_test_users = None, pi_fetch_data = None, pi_ignore_tables = None,
               pi_update = None \<rparr>"

text \<open>The porter that the constructor builds from \<open>ex_info\<close> for a dry run.\<close>

definition ex_porter :: porter where
  "ex_porter =
     \<lparr> quiet = False, debug = False, dry_run = True, source = Some ex_source,
       dest = [ex_dest], test_users = [], create_dest_db = False, fetch_data = True,
       ignore_tables = [], temp_files = [], update_scripts = [],
       mysqldump = Some ''/usr/bin/mysqldump'', mysql = Some ''/usr/bin/mysql'' \<rparr>"

text \<open>
  Test users: one per permission level, one whose level is an explicit null,
  and one with no \<open>permissions\<close> key at all.
\<close>

definition ex_user :: pydict where
  "ex_user = [''user'' \<mapsto> PStr ''kim'', ''password'' \<mapsto> PStr ''tpw'',
              ''permissions'' \<mapsto> PStr ''write'']"

definition ex_admin :: pydict where
  "ex_admin = [''user'' \<mapsto> PStr ''ann'', ''password'' \<mapsto> PStr ''apw'',
               ''permissions'' \<mapsto> PStr ''admin'']"

definition ex_null_user :: pydict where
  "ex_null_user = [''user'' \<mapsto> PStr ''lee'', ''password'' \<mapsto> PStr ''lpw'',
                   ''permissions'' \<mapsto> PNone]"

definition ex_unset_user :: pydict where
  "ex_unset_user = [''user'' \<mapsto> PStr ''sam'', ''password'' \<mapsto> PStr ''spw'']"

section \<open>Properties\<close>

subsection \<open>Evaluation, and the loops as list functions\<close>

lemmas eval_defs = main_portage_def MySQLPorter_init_def which_def path_join_def strip_char_def
  is_exe_def BasePorter_init_def set_variables_def do_portage_def plan_commands_def
  transfer_commands_def get_temporary_file_def create_dump_command_def create_load_commands_def
  load_step_def create_update_commands_def missing_message_def run_step_def print_line_def
  create_db_commands_def create_step_def create_grant_commands_def grant_step_def
  grant_privileges_def getitem_def update_step_def start_banner_def separator_def Let_def

lemmas ex_defs = ex_os_def ex_info_def ex_source_def ex_dest_def ex_porter_def

lemma bind_err_Inr [simp]: "bind_err (Inr x) f = f x"
  by (simp add: bind_err_def)

lemma bind_err_Inl [simp]: "bind_err (Inl e) f = Inl e"
  by (simp add: bind_err_def)

lemma bind_err_eq_Inr:
  "bind_err m f = Inr y \<longleftrightarrow> (\<exists>x. m = Inr x \<and> f x = Inr y)"
  by (cases m) simp_all

text \<open>Each accumulating \<^verbatim>\<open>for\<close> loop of a renderer is a \<open>map\<close> (or a filtered one).\<close>

lemma ignore_loop_eq:
  "ignore_loop n ts acc = acc @ concat (map (ignore_flag n) ts)"
  by (induction ts arbitrary: acc) (simp_all add: ignore_flag_def)

lemma load_loop_eq:
  "load_loop self f ds acc = acc @ map (load_step self f) ds"
  by (induction ds arbitrary: acc) simp_all

lemma create_load_commands_eq:
  "create_load_commands self f = map (load_step self f) (dest self)"
  by (simp add: create_load_commands_def load_loop_eq)

lemma create_db_loop_eq:
  "create_db_loop self ds acc = acc @ map (create_step self) ds"
  by (induction ds arbitrary: acc) simp_all

lemma create_db_commands_eq:
  "create_db_commands self = map (create_step self) (dest self)"
  by (simp add: create_db_commands_def create_db_loop_eq)

lemma update_dest_loop_eq:
  "update_dest_loop self u ds acc = acc @ map (update_step self u) ds"
  by (induction ds arbitrary: acc) simp_all

lemma update_loop_eq:
  "update_loop os self us (cmds, con) =
     (cmds @ concat (map (\<lambda>u. map (update_step self u) (dest self)) (filter (isfile os) us)),
      con @ map missing_message (filter (\<lambda>u. \<not> isfile os u) us))"
  by (induction us arbitrary: cmds con) (simp_all add: update_dest_loop_eq)

text \<open>No renderer reads \<open>temp_files\<close>.\<close>

lemma update_step_temp_files [simp]:
  "update_step (self\<lparr> temp_files := tfs \<rparr>) = update_step self"
  by (intro ext) (simp add: update_step_def)

lemma create_update_commands_eq:
  "create_update_commands os self console =
     (concat (map (\<lambda>u. map (update_step self u) (dest self))
                  (filter (isfile os) (update_scripts self))),
      console @ map missing_message (filter (\<lambda>u. \<not> isfile os u) (update_scripts self)))"
  by (simp add: create_update_commands_def update_loop_eq)

lemma create_update_commands_temp_files [simp]:
  "create_update_commands os (self\<lparr> temp_files := tfs \<rparr>) console =
     create_update_commands os self console"
  by (simp add: create_update_commands_eq)

lemma create_dump_command_temp_files [simp]:
  "create_dump_command (self\<lparr> temp_files := tfs \<rparr>) so f = create_dump_command self so f"
  by (simp add: create_dump_command_def Let_def split: option.splits)

lemma load_step_temp_files [simp]:
  "load_step (self\<lparr> temp_files := tfs \<rparr>) f = load_step self f"
  by (rule ext) (simp add: load_step_def)

lemma create_load_commands_temp_files [simp]:
  "create_load_commands (self\<lparr> temp_files := tfs \<rparr>) f = create_load_commands self f"
  by (simp add: create_load_commands_eq)

lemma create_dump_command_Some:
  assumes "source self = Some src"
  shows "create_dump_command self so f =
     Inr (''Dumping '' @ (if so then ''empty schema''
                          else if ignore_tables self \<noteq> [] then ''selected data''
                          else ''all tables and data'')
            @ '' from '' @ c_host src @ ''.'' @ c_name src @ ''...'',
          str_of_opt (mysqldump self) @ '' --lock-tables=false --routines=true ''
            @ (if so then ''--no-data''
               else if ignore_tables self \<noteq> [] then ''--no-create-info --complete-insert''
               else ''--complete-insert'')
            @ '' '' @ concat (map (ignore_flag (c_name src)) (ignore_tables self))
            @ '' --result-file='' @ f @ '' -h'' @ c_host src @ '' -u'' @ c_user src
            @ '' -p'' @ c_password src @ '' '' @ c_name src)"
  using assms by (simp add: create_dump_command_def ignore_loop_eq Let_def)

subsection \<open>The constructor\<close>

text \<open>
  What a successfully constructed porter holds: the configuration, with the
  defaults of \<^verbatim>\<open>BasePorter.__init__\<close> for absent keys, the path of the dump
  client, and no temporary file yet.
\<close>

lemma set_variables_fields:
  "quiet (set_variables self info q d dr) = q"
  "debug (set_variables self info q d dr) = d"
  "dry_run (set_variables self info q d dr) = dr"
  "source (set_variables self info q d dr) = Some (pi_source info)"
  "dest (set_variables self info q d dr) = (case pi_dest info of DOne c \<Rightarrow> [c] | DList cs \<Rightarrow> cs)"
  "create_dest_db (set_variables self info q d dr) = (case pi_create_dest_db info of None \<Rightarrow> create_dest_db self | Some b \<Rightarrow> b)"
  "test_users (set_variables self info q d dr) = (case pi_test_users info of None \<Rightarrow> test_users self | Some b \<Rightarrow> b)"
  "fetch_data (set_variables self info q d dr) = (case pi_fetch_data info of None \<Rightarrow> fetch_data self | Some b \<Rightarrow> b)"
  "ignore_tables (set_variables self info q d dr) = (case pi_ignore_tables info of None \<Rightarrow> ignore_tables self | Some b \<Rightarrow> b)"
  "update_scripts (set_variables self info q d dr) = (case pi_update info of None \<Rightarrow> update_scripts self | Some b \<Rightarrow> b)"
  "temp_files (set_variables self info q d dr) = temp_files self"
  "mysqldump (set_variables self info q d dr) = mysqldump self"
  "mysql (set_variables self info q d dr) = mysql self"
  by (simp_all add: set_variables_def Let_def split: option.splits)

lemma MySQLPorter_init_Inr:
  assumes "MySQLPorter_init os info q d dr = Inr self"
  shows "\<exists>md my. which os ''mysqldump'' = Inr (Some md) \<and> which os ''mysql'' = Inr my \<and>
           self = set_variables (BasePorter_init\<lparr> mysqldump := Some md, mysql := my \<rparr>) info q d dr"
  using assms
  by (auto simp: MySQLPorter_init_def bind_err_eq_Inr split: if_splits)

lemma MySQLPorter_init_fields:
  assumes "MySQLPorter_init os info q d dr = Inr self"
  shows "source self = Some (pi_source info)"
    and "temp_files self = []"
    and "\<exists>md. mysqldump self = Some md"
    and "quiet self = q" and "debug self = d" and "dry_run self = dr"
    and "dest self = (case pi_dest info of DOne c \<Rightarrow> [c] | DList cs \<Rightarrow> cs)"
    and "create_dest_db self = (case pi_create_dest_db info of None \<Rightarrow> False | Some b \<Rightarrow> b)"
    and "test_users self = (case pi_test_users info of None \<Rightarrow> [] | Some us \<Rightarrow> us)"
    and "fetch_data self = (case pi_fetch_data info of None \<Rightarrow> True | Some b \<Rightarrow> b)"
    and "ignore_tables self = (case pi_ignore_tables info of None \<Rightarrow> [] | Some ts \<Rightarrow> ts)"
    and "update_scripts self = (case pi_update info of None \<Rightarrow> [] | Some us \<Rightarrow> us)"
  using MySQLPorter_init_Inr [OF assms]
  by (auto simp: set_variables_fields BasePorter_init_def split: option.splits)

text \<open>
  C3. The claim: the constructor raises whenever the dump client or the load
  client is not on the path. Its second check tests \<open>self.mysqldump\<close> again
  instead of \<open>self.mysql\<close>. On a machine with \<^verbatim>\<open>mysqldump\<close> and without
  \<^verbatim>\<open>mysql\<close>, \<open>which\<close> finds no load client, the constructor returns a porter
  whose \<open>mysql\<close> is \<open>None\<close>, and the load command of the plan starts with the
  word \<^verbatim>\<open>None\<close>.
\<close>

theorem C3_constructed_without_mysql:
  "which ex_os_no_mysql ''mysql'' = Inr None
   \<and> map_sum id (\<lambda>p. (mysqldump p, mysql p))
        (MySQLPorter_init ex_os_no_mysql ex_info False False False) =
     Inr (Some ''/usr/bin/mysqldump'', None)
   \<and> map_sum id (map snd \<circ> res_cmd_list)
        (main_portage ex_os_no_mysql ex_info False False True) =
     Inr [''/usr/bin/mysqldump --lock-tables=false --routines=true --complete-insert  --result-file=/tmp/a.sql -hsrc -uroot -ppw shop'',
          ''None -hdst -uadm -ppw2 test < /tmp/a.sql'']"
  by (simp add: eval_defs ex_defs ex_os_no_mysql_def)

subsection \<open>The plan of a constructed porter\<close>

text \<open>
  The three modes of lines 179 to 194, and the whole plan as creation steps,
  grant steps, data-transfer steps and update steps.
\<close>

lemma transfer_commands_schema_only:
  assumes "source self = Some src" "\<not> fetch_data self"
  shows "transfer_commands os self acc =
     bind_err (create_dump_command self True (tmpname os (length (temp_files self)))) (\<lambda>sd.
       Inr (acc @ [sd] @ create_load_commands self (tmpname os (length (temp_files self))),
            self\<lparr> temp_files := temp_files self @ [tmpname os (length (temp_files self))] \<rparr>))"
  using assms by (simp add: transfer_commands_def get_temporary_file_def Let_def)

lemma transfer_commands_combined:
  assumes "fetch_data self" "ignore_tables self = []"
  shows "transfer_commands os self acc =
     bind_err (create_dump_command self False (tmpname os (length (temp_files self)))) (\<lambda>sd.
       Inr (acc @ [sd] @ create_load_commands self (tmpname os (length (temp_files self))),
            self\<lparr> temp_files := temp_files self @ [tmpname os (length (temp_files self))] \<rparr>))"
  using assms by (simp add: transfer_commands_def get_temporary_file_def Let_def)

lemma transfer_commands_two_cycles:
  assumes "fetch_data self" "ignore_tables self \<noteq> []"
  shows "transfer_commands os self acc =
     bind_err (create_dump_command self True (tmpname os (length (temp_files self)))) (\<lambda>sd.
     bind_err (create_dump_command self False (tmpname os (Suc (length (temp_files self))))) (\<lambda>dd.
       Inr (acc @ [sd] @ create_load_commands self (tmpname os (length (temp_files self)))
              @ [dd] @ create_load_commands self (tmpname os (Suc (length (temp_files self)))),
            self\<lparr> temp_files := temp_files self @ [tmpname os (length (temp_files self)),
                                 tmpname os (Suc (length (temp_files self)))] \<rparr>)))"
  using assms by (simp add: transfer_commands_def get_temporary_file_def Let_def)

lemma transfer_commands_acc:
  "transfer_commands os self acc =
     bind_err (transfer_commands os self []) (\<lambda>(t, s). Inr (acc @ t, s))"
  by (cases "fetch_data self"; cases "ignore_tables self = []")
     (simp_all add: transfer_commands_schema_only transfer_commands_combined
        transfer_commands_two_cycles transfer_commands_def get_temporary_file_def Let_def
        bind_err_def split: sum.splits)

lemma transfer_commands_porter:
  assumes "transfer_commands os self acc = Inr (c, s)"
  shows "\<exists>tfs. s = self\<lparr> temp_files := tfs \<rparr>"
  using assms
  by (cases "fetch_data self"; cases "ignore_tables self = []")
     (auto simp: transfer_commands_def get_temporary_file_def Let_def bind_err_eq_Inr)

lemma transfer_commands_total:
  assumes "source self = Some src"
  shows "\<exists>t tfs. transfer_commands os self [] = Inr (t, self\<lparr> temp_files := tfs \<rparr>) \<and> t \<noteq> []"
  by (cases "fetch_data self"; cases "ignore_tables self = []")
     (auto simp: transfer_commands_schema_only [OF assms] transfer_commands_combined
        transfer_commands_two_cycles create_dump_command_Some [OF assms])

lemma create_grant_commands_no_users:
  "test_users self = [] \<Longrightarrow> create_grant_commands self = Inr []"
  by (simp add: create_grant_commands_def)

lemma plan_commands_eq:
  assumes "create_grant_commands self = Inr grants"
  shows "plan_commands os self =
     bind_err (transfer_commands os self []) (\<lambda>(t, s).
       Inr ((if create_dest_db self then create_db_commands self else []) @ grants @ t
              @ fst (create_update_commands os self []),
            s, snd (create_update_commands os self [])))"
proof -
  define c where "c = (if create_dest_db self then create_db_commands self else [])"
  define K :: "step list \<times> porter \<Rightarrow> error + (step list \<times> porter \<times> string list)"
    where "K = (\<lambda>(cmd_list3, s3).
       if update_scripts s3 \<noteq> []
       then (let (u, console) = create_update_commands os s3 []
             in Inr (cmd_list3 @ u, s3, console))
       else Inr (cmd_list3, s3, []))"
  have u: "update_scripts self = [] \<Longrightarrow> create_update_commands os self [] = ([], [])"
    by (simp add: create_update_commands_eq)
  have step1: "plan_commands os self = bind_err (transfer_commands os self (c @ grants)) K"
  proof (cases "test_users self = []")
    case True
    with assms have "grants = []"
      by (simp add: create_grant_commands_no_users)
    with True show ?thesis
      by (simp add: plan_commands_def c_def K_def)
  next
    case False
    with assms show ?thesis
      by (simp add: plan_commands_def c_def K_def)
  qed
  show ?thesis
  proof (cases "transfer_commands os self []")
    case (Inl e)
    then show ?thesis
      by (simp add: step1 transfer_commands_acc [of os self "c @ grants"])
  next
    case (Inr r)
    obtain t s where r: "r = (t, s)" by (cases r)
    from Inr r obtain tfs where s: "s = self\<lparr> temp_files := tfs \<rparr>"
      using transfer_commands_porter by blast
    have "plan_commands os self = K (c @ grants @ t, s)"
      by (simp add: step1 transfer_commands_acc [of os self "c @ grants"] Inr r)
    also have "\<dots> = Inr (c @ grants @ t @ fst (create_update_commands os self []),
                          s, snd (create_update_commands os self []))"
      using s u by (simp add: K_def split: prod.splits)
    finally show ?thesis
      by (simp add: Inr r c_def)
  qed
qed

lemma plan_schema_only:
  assumes src: "source self = Some src" and tf: "temp_files self = []"
      and fd: "\<not> fetch_data self"
      and gr: "create_grant_commands self = Inr grants"
  shows "plan_commands os self =
     Inr ((if create_dest_db self then create_db_commands self else []) @ grants
          @ [(''Dumping empty schema from '' @ c_host src @ ''.'' @ c_name src @ ''...'',
              str_of_opt (mysqldump self) @ '' --lock-tables=false --routines=true --no-data ''
              @ concat (map (ignore_flag (c_name src)) (ignore_tables self))
              @ '' --result-file='' @ tmpname os 0 @ '' -h'' @ c_host src @ '' -u'' @ c_user src
              @ '' -p'' @ c_password src @ '' '' @ c_name src)]
          @ map (load_step self (tmpname os 0)) (dest self)
          @ fst (create_update_commands os self []),
          self\<lparr> temp_files := [tmpname os 0] \<rparr>,
          snd (create_update_commands os self []))"
  using src tf fd
  by (simp add: plan_commands_eq [OF gr] transfer_commands_schema_only [OF src fd]
        create_dump_command_Some [OF src] create_load_commands_eq)

lemma plan_two_cycles:
  assumes src: "source self = Some src" and tf: "temp_files self = []"
      and fd: "fetch_data self" and ig: "ignore_tables self \<noteq> []"
      and gr: "create_grant_commands self = Inr grants"
  shows "plan_commands os self =
     Inr ((if create_dest_db self then create_db_commands self else []) @ grants
          @ [(''Dumping empty schema from '' @ c_host src @ ''.'' @ c_name src @ ''...'',
              str_of_opt (mysqldump self) @ '' --lock-tables=false --routines=true --no-data ''
              @ concat (map (ignore_flag (c_name src)) (ignore_tables self))
              @ '' --result-file='' @ tmpname os 0 @ '' -h'' @ c_host src @ '' -u'' @ c_user src
              @ '' -p'' @ c_password src @ '' '' @ c_name src)]
          @ map (load_step self (tmpname os 0)) (dest self)
          @ [(''Dumping selected data from '' @ c_host src @ ''.'' @ c_name src @ ''...'',
              str_of_opt (mysqldump self)
              @ '' --lock-tables=false --routines=true --no-create-info --complete-insert ''
              @ concat (map (ignore_flag (c_name src)) (ignore_tables self))
              @ '' --result-file='' @ tmpname os 1 @ '' -h'' @ c_host src @ '' -u'' @ c_user src
              @ '' -p'' @ c_password src @ '' '' @ c_name src)]
          @ map (load_step self (tmpname os 1)) (dest self)
          @ fst (create_update_commands os self []),
          self\<lparr> temp_files := [tmpname os 0, tmpname os 1] \<rparr>,
          snd (create_update_commands os self []))"
  using src tf fd ig
  by (simp add: plan_commands_eq [OF gr] transfer_commands_two_cycles [OF fd ig]
        create_dump_command_Some [OF src] create_load_commands_eq)

lemma plan_combined:
  assumes src: "source self = Some src" and tf: "temp_files self = []"
      and fd: "fetch_data self" and ig: "ignore_tables self = []"
      and gr: "create_grant_commands self = Inr grants"
  shows "plan_commands os self =
     Inr ((if create_dest_db self then create_db_commands self else []) @ grants
          @ [(''Dumping all tables and data from '' @ c_host src @ ''.'' @ c_name src @ ''...'',
              str_of_opt (mysqldump self)
              @ '' --lock-tables=false --routines=true --complete-insert  --result-file=''
              @ tmpname os 0 @ '' -h'' @ c_host src @ '' -u'' @ c_user src
              @ '' -p'' @ c_password src @ '' '' @ c_name src)]
          @ map (load_step self (tmpname os 0)) (dest self)
          @ fst (create_update_commands os self []),
          self\<lparr> temp_files := [tmpname os 0] \<rparr>,
          snd (create_update_commands os self []))"
  using src tf fd ig
  by (simp add: plan_commands_eq [OF gr] transfer_commands_combined [OF fd ig]
        create_dump_command_Some [OF src] create_load_commands_eq)

text \<open>
  C1. The claim: tables in \<open>ignore_tables\<close> are left out of the bulk data copy
  only, and a schema-only dump command does not depend on \<open>ignore_tables\<close>.
  The source builds the exclusion flags outside the choice of the data flag,
  so they reach the schema-only dump as well. With \<open>fetch_data: false\<close> and
  \<open>ignore_tables: [logs]\<close> the dump command carries
  \<^verbatim>\<open>--no-data --ignore-table=shop.logs\<close>; without \<open>ignore_tables\<close> it does
  not; and the schema dump of the two-cycle plan (\<open>fetch_data\<close> left at its
  default) carries the flag too, so the table \<open>logs\<close> is not created on the
  destination at all.
\<close>

theorem C1_schema_dump_skips_ignored_tables:
  "map_sum id (map snd \<circ> res_cmd_list)
     (main_portage ex_os
        (ex_info\<lparr> pi_fetch_data := Some False, pi_ignore_tables := Some [''logs''] \<rparr>)
        False False True) =
   Inr [''/usr/bin/mysqldump --lock-tables=false --routines=true --no-data --ignore-table=shop.logs  --result-file=/tmp/a.sql -hsrc -uroot -ppw shop'',
        ''/usr/bin/mysql -hdst -uadm -ppw2 test < /tmp/a.sql'']
   \<and> map_sum id (map snd \<circ> res_cmd_list)
     (main_portage ex_os (ex_info\<lparr> pi_fetch_data := Some False \<rparr>) False False True) =
   Inr [''/usr/bin/mysqldump --lock-tables=false --routines=true --no-data  --result-file=/tmp/a.sql -hsrc -uroot -ppw shop'',
        ''/usr/bin/mysql -hdst -uadm -ppw2 test < /tmp/a.sql'']
   \<and> map_sum id (map snd \<circ> take 1 \<circ> res_cmd_list)
     (main_portage ex_os (ex_info\<lparr> pi_ignore_tables := Some [''logs''] \<rparr>) False False True) =
   Inr [''/usr/bin/mysqldump --lock-tables=false --routines=true --no-data --ignore-table=shop.logs  --result-file=/tmp/a.sql -hsrc -uroot -ppw shop'']"
  by (simp add: eval_defs ex_defs)

text \<open>
  C2. With \<open>fetch_data\<close> true and \<open>ignore_tables\<close> non-empty, the plan of a
  constructed porter is: the creation steps (if asked for), the grant steps,
  then the schema dump into the first temporary file, one load of it per
  destination in order, the data dump into the second temporary file, one load
  of it per destination in order, and last the update steps. The data dump uses
  \<^verbatim>\<open>--no-create-info --complete-insert\<close>, and its exclusion flags are
  exactly one \<open>ignore_flag\<close> per entry of \<open>ignore_tables\<close>, in order.
\<close>

theorem C2_two_cycles:
  assumes init: "MySQLPorter_init os info q d dr = Inr self"
      and fd: "fetch_data self" and ig: "ignore_tables self \<noteq> []"
      and gr: "create_grant_commands self = Inr grants"
  shows "plan_commands os self =
     Inr ((if create_dest_db self then create_db_commands self else []) @ grants
          @ [(''Dumping empty schema from '' @ c_host (pi_source info) @ ''.''
                @ c_name (pi_source info) @ ''...'',
              str_of_opt (mysqldump self) @ '' --lock-tables=false --routines=true --no-data ''
              @ concat (map (ignore_flag (c_name (pi_source info))) (ignore_tables self))
              @ '' --result-file='' @ tmpname os 0 @ '' -h'' @ c_host (pi_source info)
              @ '' -u'' @ c_user (pi_source info) @ '' -p'' @ c_password (pi_source info)
              @ '' '' @ c_name (pi_source info))]
          @ map (load_step self (tmpname os 0)) (dest self)
          @ [(''Dumping selected data from '' @ c_host (pi_source info) @ ''.''
                @ c_name (pi_source info) @ ''...'',
              str_of_opt (mysqldump self)
              @ '' --lock-tables=false --routines=true --no-create-info --complete-insert ''
              @ concat (map (ignore_flag (c_name (pi_source info))) (ignore_tables self))
              @ '' --result-file='' @ tmpname os 1 @ '' -h'' @ c_host (pi_source info)
              @ '' -u'' @ c_user (pi_source info) @ '' -p'' @ c_password (pi_source info)
              @ '' '' @ c_name (pi_source info))]
          @ map (load_step self (tmpname os 1)) (dest self)
          @ fst (create_update_commands os self []),
          self\<lparr> temp_files := [tmpname os 0, tmpname os 1] \<rparr>,
          snd (create_update_commands os self []))"
  by (rule plan_two_cycles [OF MySQLPorter_init_fields(1,2) [OF init] fd ig gr])

theorem C2_two_cycles_witness:
  "MySQLPorter_init ex_os
     (ex_info\<lparr> pi_dest := DList [ex_dest, ex_dest2], pi_fetch_data := Some True,
                pi_ignore_tables := Some [''logs'', ''audit''] \<rparr>) False False True =
     Inr (ex_porter\<lparr> dest := [ex_dest, ex_dest2], ignore_tables := [''logs'', ''audit''] \<rparr>)
   \<and> fetch_data (ex_porter\<lparr> dest := [ex_dest, ex_dest2], ignore_tables := [''logs'', ''audit''] \<rparr>)
   \<and> ignore_tables (ex_porter\<lparr> dest := [ex_dest, ex_dest2],
                                 ignore_tables := [''logs'', ''audit''] \<rparr>) = [''logs'', ''audit'']
   \<and> create_grant_commands
        (ex_porter\<lparr> dest := [ex_dest, ex_dest2], ignore_tables := [''logs'', ''audit''] \<rparr>) = Inr []
   \<and> plan_commands ex_os
        (ex_porter\<lparr> dest := [ex_dest, ex_dest2], ignore_tables := [''logs'', ''audit''] \<rparr>) =
     Inr ([(''Dumping empty schema from src.shop...'',
            ''/usr/bin/mysqldump --lock-tables=false --routines=true --no-data --ignore-table=shop.logs --ignore-table=shop.audit  --result-file=/tmp/a.sql -hsrc -uroot -ppw shop''),
           (''Loading /tmp/a.sql on test.dst...'',
            ''/usr/bin/mysql -hdst -uadm -ppw2 test < /tmp/a.sql''),
           (''Loading /tmp/a.sql on test2.dst2...'',
            ''/usr/bin/mysql -hdst2 -uadm -ppw3 test2 < /tmp/a.sql''),
           (''Dumping selected data from src.shop...'',
            ''/usr/bin/mysqldump --lock-tables=false --routines=true --no-create-info --complete-insert --ignore-table=shop.logs --ignore-table=shop.audit  --result-file=/tmp/b.sql -hsrc -uroot -ppw shop''),
           (''Loading /tmp/b.sql on test.dst...'',
            ''/usr/bin/mysql -hdst -uadm -ppw2 test < /tmp/b.sql''),
           (''Loading /tmp/b.sql on test2.dst2...'',
            ''/usr/bin/mysql -hdst2 -uadm -ppw3 test2 < /tmp/b.sql'')],
          ex_porter\<lparr> dest := [ex_dest, ex_dest2], ignore_tables := [''logs'', ''audit''],
                      temp_files := [''/tmp/a.sql'', ''/tmp/b.sql''] \<rparr>, [])"
proof -
  let ?p = "ex_porter\<lparr> dest := [ex_dest, ex_dest2], ignore_tables := [''logs'', ''audit''] \<rparr>"
  have init: "MySQLPorter_init ex_os
     (ex_info\<lparr> pi_dest := DList [ex_dest, ex_dest2], pi_fetch_data := Some True,
                pi_ignore_tables := Some [''logs'', ''audit''] \<rparr>) False False True = Inr ?p"
    by (simp add: eval_defs ex_defs ex_dest2_def)
  have fd: "fetch_data ?p"
    by (simp add: ex_porter_def)
  have ig: "ignore_tables ?p \<noteq> []"
    by simp
  have gr: "create_grant_commands ?p = Inr []"
    by (simp add: create_grant_commands_def ex_porter_def)
  show ?thesis
    using C2_two_cycles [OF init fd ig gr] init fd gr
    by (simp add: ex_defs ex_dest2_def create_update_commands_eq load_step_def
          ignore_flag_def)
qed

text \<open>
  C5. The plan of a constructed porter whose grant commands render is the
  concatenation of four lists, in this order: the creation steps (one per
  destination when \<open>create_dest_db\<close> is set, none otherwise), the grant steps,
  the data-transfer steps (what lines 179 to 194 produce, never empty), and the
  update steps (one per existing script and destination).
\<close>

theorem C5_phase_order:
  assumes init: "MySQLPorter_init os info q d dr = Inr self"
      and gr: "create_grant_commands self = Inr grants"
  shows "\<exists>transfer s.
           transfer_commands os self [] = Inr (transfer, s)
         \<and> plan_commands os self =
             Inr ((if create_dest_db self then map (create_step self) (dest self) else [])
                  @ grants
                  @ transfer
                  @ concat (map (\<lambda>u. map (update_step self u) (dest self))
                              (filter (isfile os) (update_scripts self))),
                  s,
                  map missing_message (filter (\<lambda>u. \<not> isfile os u) (update_scripts self)))"
proof -
  obtain t tfs where t: "transfer_commands os self [] = Inr (t, self\<lparr> temp_files := tfs \<rparr>)"
    using transfer_commands_total [OF MySQLPorter_init_fields(1) [OF init]] by blast
  then show ?thesis
    by (simp add: plan_commands_eq [OF gr] create_update_commands_eq create_db_commands_eq)
qed

theorem C5_phase_order_witness:
  "MySQLPorter_init ex_os
     (ex_info\<lparr> pi_create_dest_db := Some True, pi_test_users := Some [ex_user],
                pi_fetch_data := Some False, pi_update := Some [''fix.sql''] \<rparr>)
     False False True =
     Inr (ex_porter\<lparr> create_dest_db := True, test_users := [ex_user], fetch_data := False,
                      update_scripts := [''fix.sql''] \<rparr>)
   \<and> create_grant_commands
        (ex_porter\<lparr> create_dest_db := True, test_users := [ex_user], fetch_data := False,
                     update_scripts := [''fix.sql''] \<rparr>) =
     Inr [(''Granting kim write permission on dst.test...'',
           ''/usr/bin/mysql -hdst -uadm -ppw2 -e '' @ [dq]
             @ ''GRANT SELECT, INSERT, UPDATE, DELETE, EXECUTE on test.* to '' @ [sq] @ ''kim''
             @ [sq] @ ''@'' @ [sq] @ ''%'' @ [sq] @ '' IDENTIFIED BY '' @ [sq] @ ''tpw'' @ [sq]
             @ ''; FLUSH PRIVILEGES;'' @ [dq])]
   \<and> map_sum id (map fst \<circ> fst)
       (plan_commands ex_os
         (ex_porter\<lparr> create_dest_db := True, test_users := [ex_user], fetch_data := False,
                      update_scripts := [''fix.sql''] \<rparr>)) =
     Inr [''Creating test on dst...'',
          ''Granting kim write permission on dst.test...'',
          ''Dumping empty schema from src.shop...'',
          ''Loading /tmp/a.sql on test.dst...'',
          ''Applying fix.sql to dst.test...'']"
proof -
  let ?p = "ex_porter\<lparr> create_dest_db := True, test_users := [ex_user], fetch_data := False,
                      update_scripts := [''fix.sql''] \<rparr>"
  let ?g = "[(''Granting kim write permission on dst.test...'',
           ''/usr/bin/mysql -hdst -uadm -ppw2 -e '' @ [dq]
             @ ''GRANT SELECT, INSERT, UPDATE, DELETE, EXECUTE on test.* to '' @ [sq] @ ''kim''
             @ [sq] @ ''@'' @ [sq] @ ''%'' @ [sq] @ '' IDENTIFIED BY '' @ [sq] @ ''tpw'' @ [sq]
             @ ''; FLUSH PRIVILEGES;'' @ [dq])]"
  have init: "MySQLPorter_init ex_os
     (ex_info\<lparr> pi_create_dest_db := Some True, pi_test_users := Some [ex_user],
                pi_fetch_data := Some False, pi_update := Some [''fix.sql''] \<rparr>)
     False False True = Inr ?p"
    by (simp add: eval_defs ex_defs)
  have gr: "create_grant_commands ?p = Inr ?g"
    by (simp add: eval_defs ex_defs ex_user_def)
  have tr: "transfer_commands ex_os ?p [] =
     Inr ([(''Dumping empty schema from src.shop...'',
            ''/usr/bin/mysqldump --lock-tables=false --routines=true --no-data  --result-file=/tmp/a.sql -hsrc -uroot -ppw shop''),
           (''Loading /tmp/a.sql on test.dst...'',
            ''/usr/bin/mysql -hdst -uadm -ppw2 test < /tmp/a.sql'')],
         ?p\<lparr> temp_files := [''/tmp/a.sql''] \<rparr>)"
    by (simp add: eval_defs ex_defs)
  show ?thesis
    using C5_phase_order [OF init gr] init gr tr
    by (auto simp: ex_defs create_step_def update_step_def)
qed

text \<open>
  C9. With \<open>fetch_data\<close> false, the data-transfer part of the plan is one
  dump with \<^verbatim>\<open>--no-data\<close> into the first temporary file, followed by one
  load of that file per destination, in the order of \<open>dest\<close>; around it are
  only the creation and grant steps before and the update steps after.
\<close>

theorem C9_schema_only_plan:
  assumes init: "MySQLPorter_init os info q d dr = Inr self"
      and fd: "\<not> fetch_data self"
      and gr: "create_grant_commands self = Inr grants"
  shows "plan_commands os self =
     Inr ((if create_dest_db self then create_db_commands self else []) @ grants
          @ [(''Dumping empty schema from '' @ c_host (pi_source info) @ ''.''
                @ c_name (pi_source info) @ ''...'',
              str_of_opt (mysqldump self) @ '' --lock-tables=false --routines=true --no-data ''
              @ concat (map (ignore_flag (c_name (pi_source info))) (ignore_tables self))
              @ '' --result-file='' @ tmpname os 0 @ '' -h'' @ c_host (pi_source info)
              @ '' -u'' @ c_user (pi_source info) @ '' -p'' @ c_password (pi_source info)
              @ '' '' @ c_name (pi_source info))]
          @ map (load_step self (tmpname os 0)) (dest self)
          @ fst (create_update_commands os self []),
          self\<lparr> temp_files := [tmpname os 0] \<rparr>,
          snd (create_update_commands os self []))"
  by (rule plan_schema_only [OF MySQLPorter_init_fields(1,2) [OF init] fd gr])

theorem C9_schema_only_plan_witness:
  "MySQLPorter_init ex_os (ex_info\<lparr> pi_fetch_data := Some False \<rparr>) False False True =
     Inr (ex_porter\<lparr> fetch_data := False \<rparr>)
   \<and> \<not> fetch_data (ex_porter\<lparr> fetch_data := False \<rparr>)
   \<and> create_grant_commands (ex_porter\<lparr> fetch_data := False \<rparr>) = Inr []
   \<and> plan_commands ex_os (ex_porter\<lparr> fetch_data := False \<rparr>) =
     Inr ([(''Dumping empty schema from src.shop...'',
            ''/usr/bin/mysqldump --lock-tables=false --routines=true --no-data  --result-file=/tmp/a.sql -hsrc -uroot -ppw shop''),
           (''Loading /tmp/a.sql on test.dst...'',
            ''/usr/bin/mysql -hdst -uadm -ppw2 test < /tmp/a.sql'')],
          ex_porter\<lparr> fetch_data := False, temp_files := [''/tmp/a.sql''] \<rparr>, [])"
proof -
  have init: "MySQLPorter_init ex_os (ex_info\<lparr> pi_fetch_data := Some False \<rparr>) False False True =
     Inr (ex_porter\<lparr> fetch_data := False \<rparr>)"
    by (simp add: eval_defs ex_defs)
  have fd: "\<not> fetch_data (ex_porter\<lparr> fetch_data := False \<rparr>)"
    by simp
  have gr: "create_grant_commands (ex_porter\<lparr> fetch_data := False \<rparr>) = Inr []"
    by (simp add: create_grant_commands_def ex_porter_def)
  show ?thesis
    using C9_schema_only_plan [OF init fd gr] init fd gr
    by (simp add: ex_defs create_update_commands_eq load_step_def)
qed

text \<open>
  C10. When the configuration has no \<open>fetch_data\<close> key, the constructed porter
  has \<open>fetch_data\<close> true and is the porter built from the same configuration
  with \<open>fetch_data: true\<close>; with no (or an empty) \<open>ignore_tables\<close> its
  data-transfer part is a single combined dump (\<^verbatim>\<open>--complete-insert\<close>,
  neither \<^verbatim>\<open>--no-data\<close> nor \<^verbatim>\<open>--no-create-info\<close>) and its loads.
\<close>

theorem C10_fetch_data_defaults_to_true:
  assumes init: "MySQLPorter_init os info q d dr = Inr self"
      and nf: "pi_fetch_data info = None"
      and ig: "pi_ignore_tables info = None \<or> pi_ignore_tables info = Some []"
      and gr: "create_grant_commands self = Inr grants"
  shows "fetch_data self
     \<and> MySQLPorter_init os (info\<lparr> pi_fetch_data := Some True \<rparr>) q d dr = Inr self
     \<and> plan_commands os self =
     Inr ((if create_dest_db self then create_db_commands self else []) @ grants
          @ [(''Dumping all tables and data from '' @ c_host (pi_source info) @ ''.''
                @ c_name (pi_source info) @ ''...'',
              str_of_opt (mysqldump self)
              @ '' --lock-tables=false --routines=true --complete-insert  --result-file=''
              @ tmpname os 0 @ '' -h'' @ c_host (pi_source info)
              @ '' -u'' @ c_user (pi_source info) @ '' -p'' @ c_password (pi_source info)
              @ '' '' @ c_name (pi_source info))]
          @ map (load_step self (tmpname os 0)) (dest self)
          @ fst (create_update_commands os self []),
          self\<lparr> temp_files := [tmpname os 0] \<rparr>,
          snd (create_update_commands os self []))"
proof -
  have fd: "fetch_data self"
    using MySQLPorter_init_fields(10) [OF init] nf by simp
  have it: "ignore_tables self = []"
    using MySQLPorter_init_fields(11) [OF init] ig by auto
  have same: "set_variables p (info\<lparr> pi_fetch_data := Some True \<rparr>) q d dr
                = set_variables p info q d dr" if "fetch_data p" for p
    using nf that by (simp add: set_variables_def Let_def split: option.splits)
  have "MySQLPorter_init os (info\<lparr> pi_fetch_data := Some True \<rparr>) q d dr
          = MySQLPorter_init os info q d dr"
    by (simp add: MySQLPorter_init_def same BasePorter_init_def cong: if_cong)
  with init fd plan_combined [OF MySQLPorter_init_fields(1,2) [OF init] fd it gr]
  show ?thesis by simp
qed

theorem C10_fetch_data_defaults_to_true_witness:
  "MySQLPorter_init ex_os ex_info False False True = Inr ex_porter
   \<and> pi_fetch_data ex_info = None
   \<and> pi_ignore_tables ex_info = None
   \<and> create_grant_commands ex_porter = Inr []
   \<and> fetch_data ex_porter
   \<and> MySQLPorter_init ex_os (ex_info\<lparr> pi_fetch_data := Some True \<rparr>) False False True
       = Inr ex_porter
   \<and> plan_commands ex_os ex_porter =
     Inr ([(''Dumping all tables and data from src.shop...'',
            ''/usr/bin/mysqldump --lock-tables=false --routines=true --complete-insert  --result-file=/tmp/a.sql -hsrc -uroot -ppw shop''),
           (''Loading /tmp/a.sql on test.dst...'',
            ''/usr/bin/mysql -hdst -uadm -ppw2 test < /tmp/a.sql'')],
          ex_porter\<lparr> temp_files := [''/tmp/a.sql''] \<rparr>, [])"
proof -
  have init: "MySQLPorter_init ex_os ex_info False False True = Inr ex_porter"
    by (simp add: eval_defs ex_defs)
  have nf: "pi_fetch_data ex_info = None"
    by (simp add: ex_info_def)
  have ig: "pi_ignore_tables ex_info = None"
    by (simp add: ex_info_def)
  have gr: "create_grant_commands ex_porter = Inr []"
    by (simp add: create_grant_commands_def ex_porter_def)
  show ?thesis
    using C10_fetch_data_defaults_to_true [OF init nf disjI1 [OF ig] gr] init nf ig gr
    by (simp add: ex_defs create_update_commands_eq load_step_def)
qed

subsection \<open>Grants\<close>

text \<open>The grant loops succeed when every user has the three keys.\<close>

lemma grant_step_ok:
  assumes "tu ''user'' = Some u" "tu ''password'' = Some pw" "tu ''permissions'' = Some perm"
  shows "grant_step self tu privs d =
     Inr (''Granting '' @ str_of u @ '' '' @ str_of perm @ '' permission on '' @ c_host d
            @ ''.'' @ c_name d @ ''...'',
          str_of_opt (mysql self) @ '' -h'' @ c_host d @ '' -u'' @ c_user d @ '' -p''
            @ c_password d @ '' -e '' @ [dq] @ ''GRANT '' @ privs @ '' on '' @ c_name d
            @ ''.* to '' @ [sq] @ str_of u @ [sq] @ ''@'' @ [sq] @ ''%'' @ [sq]
            @ '' IDENTIFIED BY '' @ [sq] @ str_of pw @ [sq] @ ''; FLUSH PRIVILEGES;'' @ [dq])"
  using assms by (simp add: grant_step_def getitem_def)

lemma grant_dest_loop_ok:
  assumes "tu ''user'' = Some u" "tu ''password'' = Some pw" "tu ''permissions'' = Some perm"
  shows "grant_dest_loop self tu privs ds acc =
     Inr (acc @ map (\<lambda>d.
       (''Granting '' @ str_of u @ '' '' @ str_of perm @ '' permission on '' @ c_host d
            @ ''.'' @ c_name d @ ''...'',
        str_of_opt (mysql self) @ '' -h'' @ c_host d @ '' -u'' @ c_user d @ '' -p''
            @ c_password d @ '' -e '' @ [dq] @ ''GRANT '' @ privs @ '' on '' @ c_name d
            @ ''.* to '' @ [sq] @ str_of u @ [sq] @ ''@'' @ [sq] @ ''%'' @ [sq]
            @ '' IDENTIFIED BY '' @ [sq] @ str_of pw @ [sq] @ ''; FLUSH PRIVILEGES;'' @ [dq])) ds)"
  by (induction ds arbitrary: acc) (simp_all add: grant_step_ok [OF assms])

lemma grant_privileges_cases:
  "grant_privileges perm =
     (if perm = PStr ''admin'' then ''ALL''
      else if perm = PStr ''write'' then ''SELECT, INSERT, UPDATE, DELETE, EXECUTE''
      else ''SELECT'')"
  by (simp add: grant_privileges_def)

lemma grant_user_loop_ok:
  assumes "list_all2 (\<lambda>tu (u, pw, perm). tu ''user'' = Some u \<and> tu ''password'' = Some pw
                        \<and> tu ''permissions'' = Some perm) us triples"
  shows "grant_user_loop self us acc =
     Inr (acc @ concat (map (\<lambda>(u, pw, perm). map (\<lambda>d.
       (''Granting '' @ str_of u @ '' '' @ str_of perm @ '' permission on '' @ c_host d
            @ ''.'' @ c_name d @ ''...'',
        str_of_opt (mysql self) @ '' -h'' @ c_host d @ '' -u'' @ c_user d @ '' -p''
            @ c_password d @ '' -e '' @ [dq] @ ''GRANT ''
            @ (if perm = PStr ''admin'' then ''ALL''
               else if perm = PStr ''write'' then ''SELECT, INSERT, UPDATE, DELETE, EXECUTE''
               else ''SELECT'')
            @ '' on '' @ c_name d
            @ ''.* to '' @ [sq] @ str_of u @ [sq] @ ''@'' @ [sq] @ ''%'' @ [sq]
            @ '' IDENTIFIED BY '' @ [sq] @ str_of pw @ [sq] @ ''; FLUSH PRIVILEGES;'' @ [dq]))
       (dest self)) triples))"
  using assms
proof (induction us triples arbitrary: acc rule: list_all2_induct)
  case Nil
  show ?case by simp
next
  case (Cons tu us t ts)
  obtain u pw perm where t: "t = (u, pw, perm)" by (cases t)
  with Cons.hyps have k: "tu ''user'' = Some u" "tu ''password'' = Some pw"
    "tu ''permissions'' = Some perm" by auto
  show ?case
    by (simp add: t getitem_def k grant_dest_loop_ok [OF k] Cons.IH grant_privileges_cases)
qed

text \<open>
  C6, as amended. When every test user has the keys \<open>user\<close>, \<open>password\<close>
  and \<open>permissions\<close>, the grant commands are one per user and destination
  (users in order, destinations in order for each), and the privileges in the
  \<^verbatim>\<open>GRANT\<close> statement are \<^verbatim>\<open>ALL\<close> for \<open>admin\<close>, the five verbs for
  \<open>write\<close>, and \<^verbatim>\<open>SELECT\<close> for every other value, an explicit null
  included.
\<close>

theorem C6_permission_mapping:
  assumes "list_all2 (\<lambda>tu (u, pw, perm). tu ''user'' = Some u \<and> tu ''password'' = Some pw
                        \<and> tu ''permissions'' = Some perm) (test_users self) triples"
  shows "create_grant_commands self =
     Inr (concat (map (\<lambda>(u, pw, perm). map (\<lambda>d.
       (''Granting '' @ str_of u @ '' '' @ str_of perm @ '' permission on '' @ c_host d
            @ ''.'' @ c_name d @ ''...'',
        str_of_opt (mysql self) @ '' -h'' @ c_host d @ '' -u'' @ c_user d @ '' -p''
            @ c_password d @ '' -e '' @ [dq] @ ''GRANT ''
            @ (if perm = PStr ''admin'' then ''ALL''
               else if perm = PStr ''write'' then ''SELECT, INSERT, UPDATE, DELETE, EXECUTE''
               else ''SELECT'')
            @ '' on '' @ c_name d
            @ ''.* to '' @ [sq] @ str_of u @ [sq] @ ''@'' @ [sq] @ ''%'' @ [sq]
            @ '' IDENTIFIED BY '' @ [sq] @ str_of pw @ [sq] @ ''; FLUSH PRIVILEGES;'' @ [dq]))
       (dest self)) triples))"
  unfolding create_grant_commands_def
  using grant_user_loop_ok [OF assms, of self "[]"] by simp

theorem C6_permission_mapping_witness:
  "list_all2 (\<lambda>tu (u, pw, perm). tu ''user'' = Some u \<and> tu ''password'' = Some pw
                \<and> tu ''permissions'' = Some perm)
     (test_users (ex_porter\<lparr> test_users := [ex_admin, ex_user, ex_null_user] \<rparr>))
     [(PStr ''ann'', PStr ''apw'', PStr ''admin''), (PStr ''kim'', PStr ''tpw'', PStr ''write''),
      (PStr ''lee'', PStr ''lpw'', PNone)]
   \<and> map_sum id (map snd)
       (create_grant_commands (ex_porter\<lparr> test_users := [ex_admin, ex_user, ex_null_user] \<rparr>)) =
     Inr [''/usr/bin/mysql -hdst -uadm -ppw2 -e '' @ [dq]
            @ ''GRANT ALL on test.* to '' @ [sq] @ ''ann'' @ [sq] @ ''@'' @ [sq] @ ''%'' @ [sq]
            @ '' IDENTIFIED BY '' @ [sq] @ ''apw'' @ [sq] @ ''; FLUSH PRIVILEGES;'' @ [dq],
          ''/usr/bin/mysql -hdst -uadm -ppw2 -e '' @ [dq]
            @ ''GRANT SELECT, INSERT, UPDATE, DELETE, EXECUTE on test.* to '' @ [sq] @ ''kim''
            @ [sq] @ ''@'' @ [sq] @ ''%'' @ [sq]
            @ '' IDENTIFIED BY '' @ [sq] @ ''tpw'' @ [sq] @ ''; FLUSH PRIVILEGES;'' @ [dq],
          ''/usr/bin/mysql -hdst -uadm -ppw2 -e '' @ [dq]
            @ ''GRANT SELECT on test.* to '' @ [sq] @ ''lee'' @ [sq] @ ''@'' @ [sq] @ ''%'' @ [sq]
            @ '' IDENTIFIED BY '' @ [sq] @ ''lpw'' @ [sq] @ ''; FLUSH PRIVILEGES;'' @ [dq]]"
proof -
  have h: "list_all2 (\<lambda>tu (u, pw, perm). tu ''user'' = Some u \<and> tu ''password'' = Some pw
                \<and> tu ''permissions'' = Some perm)
     (test_users (ex_porter\<lparr> test_users := [ex_admin, ex_user, ex_null_user] \<rparr>))
     [(PStr ''ann'', PStr ''apw'', PStr ''admin''), (PStr ''kim'', PStr ''tpw'', PStr ''write''),
      (PStr ''lee'', PStr ''lpw'', PNone)]"
    by (simp add: ex_admin_def ex_user_def ex_null_user_def)
  show ?thesis
    using C6_permission_mapping [OF h] h
    by (simp add: ex_defs)
qed

text \<open>
  The claim as stated also covers a test user whose permission level is not
  set. For a user without the \<open>permissions\<close> key the source raises
  \<^verbatim>\<open>KeyError\<close> at \<open>test_user['permissions']\<close>, and the job stops before any
  command is planned.
\<close>

theorem C6_unset_permission_counterexample:
  "main_portage ex_os (ex_info\<lparr> pi_test_users := Some [ex_unset_user] \<rparr>) False False True
     = Inl (KeyError ''permissions'')"
  by (simp add: eval_defs ex_defs ex_unset_user_def)

subsection \<open>Update scripts\<close>

text \<open>Running only ever appends to the console, and a plan is always run.\<close>

lemma run_step_console:
  "\<exists>post. rs_console (run_step os self i cmd st) = rs_console st @ post"
  by (simp add: run_step_def print_line_def Let_def)

lemma run_loop_console:
  "\<exists>post. rs_console (run_loop os self i cmds st) = rs_console st @ post"
proof (induction cmds arbitrary: i st)
  case Nil
  show ?case by simp
next
  case (Cons cmd cmds)
  obtain p0 where p0: "rs_console (run_step os self i cmd st) = rs_console st @ p0"
    using run_step_console by blast
  obtain p1 where "rs_console (run_loop os self (Suc i) cmds (run_step os self i cmd st))
                     = rs_console (run_step os self i cmd st) @ p1"
    using Cons.IH by blast
  with p0 show ?case by simp
qed

lemma do_portage_Inr:
  assumes "plan_commands os self = Inr (c, s, con)"
  shows "\<exists>r post. do_portage os self = Inr r \<and> res_cmd_list r = c \<and> res_console r = con @ post"
proof -
  let ?st1 = "if \<not> quiet s
              then print_line (start_banner (dry_run s))
                     \<lparr> rs_temp_files = temp_files s, rs_console = con, rs_executed = [] \<rparr>
              else \<lparr> rs_temp_files = temp_files s, rs_console = con, rs_executed = [] \<rparr>"
  have "\<exists>p0. rs_console ?st1 = con @ p0"
    by (simp add: print_line_def)
  then obtain p0 where p0: "rs_console ?st1 = con @ p0" ..
  obtain p where p: "rs_console (run_loop os s 0 c ?st1) = rs_console ?st1 @ p"
    using run_loop_console by blast
  show ?thesis
    using assms p p0
    by (cases "quiet s"; cases "debug s") (simp_all add: do_portage_def Let_def print_line_def)
qed

text \<open>
  C8. \<open>create_update_commands\<close> returns, for the scripts that exist, one
  apply-step per script and destination (scripts in their order, and for each
  script the destinations in theirs), returns no step for a script that does not
  exist, and prints one diagnostic per missing script. It has no error result,
  and the run goes on: \<open>do_portage\<close> of a constructed porter returns, its
  command list ends with these apply-steps and its console starts with these
  diagnostics.
\<close>

theorem C8_missing_update_scripts:
  assumes init: "MySQLPorter_init os info q d dr = Inr self"
      and gr: "create_grant_commands self = Inr grants"
  shows "create_update_commands os self console =
           (concat (map (\<lambda>u. map (update_step self u) (dest self))
                        (filter (isfile os) (update_scripts self))),
            console @ map missing_message
                        (filter (\<lambda>u. \<not> isfile os u) (update_scripts self)))
       \<and> (\<exists>r pre post.
             do_portage os self = Inr r
           \<and> res_cmd_list r =
               pre @ concat (map (\<lambda>u. map (update_step self u) (dest self))
                                 (filter (isfile os) (update_scripts self)))
           \<and> res_console r =
               map missing_message (filter (\<lambda>u. \<not> isfile os u) (update_scripts self))
               @ post)"
proof -
  obtain transfer s where
    "plan_commands os self =
       Inr ((if create_dest_db self then map (create_step self) (dest self) else [])
            @ grants @ transfer
            @ concat (map (\<lambda>u. map (update_step self u) (dest self))
                        (filter (isfile os) (update_scripts self))),
            s, map missing_message (filter (\<lambda>u. \<not> isfile os u) (update_scripts self)))"
    using transfer_commands_total [OF MySQLPorter_init_fields(1) [OF init], of os]
    by (auto simp: plan_commands_eq [OF gr] create_update_commands_eq create_db_commands_eq)
  from do_portage_Inr [OF this] obtain r post where
    "do_portage os self = Inr r"
    "res_cmd_list r = ((if create_dest_db self then map (create_step self) (dest self) else [])
            @ grants @ transfer)
            @ concat (map (\<lambda>u. map (update_step self u) (dest self))
                        (filter (isfile os) (update_scripts self)))"
    "res_console r =
       map missing_message (filter (\<lambda>u. \<not> isfile os u) (update_scripts self)) @ post"
    by auto
  then show ?thesis
    unfolding create_update_commands_eq by blast
qed

theorem C8_missing_update_scripts_witness:
  "MySQLPorter_init ex_os
     (ex_info\<lparr> pi_dest := DList [ex_dest, ex_dest2],
                pi_update := Some [''missing.sql'', ''fix.sql''] \<rparr>) True False True =
     Inr (ex_porter\<lparr> quiet := True, dest := [ex_dest, ex_dest2],
                      update_scripts := [''missing.sql'', ''fix.sql''] \<rparr>)
   \<and> create_grant_commands
        (ex_porter\<lparr> quiet := True, dest := [ex_dest, ex_dest2],
                     update_scripts := [''missing.sql'', ''fix.sql''] \<rparr>) = Inr []
   \<and> create_update_commands ex_os
        (ex_porter\<lparr> quiet := True, dest := [ex_dest, ex_dest2],
                     update_scripts := [''missing.sql'', ''fix.sql''] \<rparr>) [] =
       ([(''Applying fix.sql to dst.test...'',
          ''/usr/bin/mysql -hdst -uadm -ppw2 test < fix.sql''),
         (''Applying fix.sql to dst2.test2...'',
          ''/usr/bin/mysql -hdst2 -uadm -ppw3 test2 < fix.sql'')],
        [''ERROR: missing.sql does not exist!''])
   \<and> (\<exists>r pre post.
         do_portage ex_os
           (ex_porter\<lparr> quiet := True, dest := [ex_dest, ex_dest2],
                        update_scripts := [''missing.sql'', ''fix.sql''] \<rparr>) = Inr r
       \<and> res_cmd_list r =
           pre @ [(''Applying fix.sql to dst.test...'',
                   ''/usr/bin/mysql -hdst -uadm -ppw2 test < fix.sql''),
                  (''Applying fix.sql to dst2.test2...'',
                   ''/usr/bin/mysql -hdst2 -uadm -ppw3 test2 < fix.sql'')]
       \<and> res_console r = [''ERROR: missing.sql does not exist!''] @ post)"
proof -
  let ?p = "ex_porter\<lparr> quiet := True, dest := [ex_dest, ex_dest2],
                       update_scripts := [''missing.sql'', ''fix.sql''] \<rparr>"
  have init: "MySQLPorter_init ex_os
     (ex_info\<lparr> pi_dest := DList [ex_dest, ex_dest2],
                pi_update := Some [''missing.sql'', ''fix.sql''] \<rparr>) True False True = Inr ?p"
    by (simp add: eval_defs ex_defs ex_dest2_def)
  have gr: "create_grant_commands ?p = Inr []"
    by (simp add: create_grant_commands_def ex_porter_def)
  show ?thesis
    using C8_missing_update_scripts [OF init gr, of "[]"] init gr
    by (simp add: ex_defs ex_dest2_def update_step_def missing_message_def)
qed

subsection \<open>Running the plan\<close>

text \<open>
  What the loop of lines 224 to 226 computes. When no pending file from index
  \<open>i\<close> on is named in the command, the list is unchanged; when the names in
  the list are distinct and at most one of them is named in the command, the
  loop removes exactly that one. Two named files next to each other are the
  case it gets wrong (C4 below).
\<close>

lemma remove_loop_none:
  "(\<And>j. i \<le> j \<Longrightarrow> j < length tfs \<Longrightarrow> \<not> py_in (tfs ! j) cmd) \<Longrightarrow> remove_loop i cmd tfs = tfs"
proof (induction i cmd tfs rule: remove_loop.induct)
  case (1 i cmd tfs)
  show ?case
  proof (cases "i < length tfs")
    case True
    then have n: "\<not> py_in (tfs ! i) cmd" using "1.prems" by simp
    have "remove_loop (Suc i) cmd tfs = tfs"
      using "1.IH"(2) [OF True n] "1.prems" by simp
    with True n show ?thesis by simp
  next
    case False
    then show ?thesis by simp
  qed
qed

lemma remove1_nth_distinct:
  "distinct xs \<Longrightarrow> k < length xs \<Longrightarrow> remove1 (xs ! k) xs = take k xs @ drop (Suc k) xs"
proof (induction xs arbitrary: k)
  case Nil
  then show ?case by simp
next
  case (Cons x xs)
  show ?case
  proof (cases k)
    case 0
    then show ?thesis by simp
  next
    case (Suc m)
    with Cons.prems have "xs ! m \<noteq> x" by auto
    with Suc Cons show ?thesis by simp
  qed
qed

lemma remove_loop_one:
  assumes "distinct tfs" "k < length tfs" "i \<le> k" "py_in (tfs ! k) cmd"
      and "\<And>j. i \<le> j \<Longrightarrow> j < length tfs \<Longrightarrow> j \<noteq> k \<Longrightarrow> \<not> py_in (tfs ! j) cmd"
  shows "remove_loop i cmd tfs = take k tfs @ drop (Suc k) tfs"
  using assms
proof (induction "k - i" arbitrary: i)
  case 0
  then have ik: "i = k" by simp
  have "remove_loop (Suc k) cmd (take k tfs @ drop (Suc k) tfs) = take k tfs @ drop (Suc k) tfs"
  proof (rule remove_loop_none)
    fix j assume j: "Suc k \<le> j" "j < length (take k tfs @ drop (Suc k) tfs)"
    then have "(take k tfs @ drop (Suc k) tfs) ! j = tfs ! Suc j"
      using \<open>k < length tfs\<close> by (simp add: nth_append min_def)
    moreover have "\<not> py_in (tfs ! Suc j) cmd"
      using "0.prems"(5) [of "Suc j"] j ik \<open>k < length tfs\<close> by simp
    ultimately show "\<not> py_in ((take k tfs @ drop (Suc k) tfs) ! j) cmd" by simp
  qed
  then show ?case
    using ik \<open>k < length tfs\<close> \<open>py_in (tfs ! k) cmd\<close>
    by (simp add: remove1_nth_distinct [OF \<open>distinct tfs\<close>])
next
  case (Suc n)
  then have lt: "i < k" by simp
  then have n: "\<not> py_in (tfs ! i) cmd"
    using Suc.prems(5) [of i] Suc.prems(2) by simp
  have "remove_loop (Suc i) cmd tfs = take k tfs @ drop (Suc k) tfs"
    using Suc.hyps(1) [of "Suc i"] Suc.hyps(2) Suc.prems lt by simp
  with n lt Suc.prems(2) show ?case by simp
qed

lemma filter_one_out:
  assumes "k < length xs" "\<not> P (xs ! k)" "\<And>j. j < length xs \<Longrightarrow> j \<noteq> k \<Longrightarrow> P (xs ! j)"
  shows "filter P xs = take k xs @ drop (Suc k) xs"
proof -
  have xs: "xs = take k xs @ xs ! k # drop (Suc k) xs"
    using assms(1) by (simp add: id_take_nth_drop)
  have a: "filter P (take k xs) = take k xs"
    using assms by (auto simp: filter_id_conv in_set_conv_nth)
  have b: "filter P (drop (Suc k) xs) = drop (Suc k) xs"
    using assms by (auto simp: filter_id_conv in_set_conv_nth)
  have "filter P xs = filter P (take k xs) @ filter P (xs ! k # drop (Suc k) xs)"
    by (subst xs) (simp only: filter_append)
  with a b assms(2) show ?thesis by simp
qed

lemma remove_loop_at_most_one:
  assumes d: "distinct tfs"
      and one: "\<And>a b. a \<in> set tfs \<Longrightarrow> b \<in> set tfs \<Longrightarrow> py_in a cmd \<Longrightarrow> py_in b cmd \<Longrightarrow> a = b"
  shows "remove_loop 0 cmd tfs = filter (\<lambda>tf. \<not> py_in tf cmd) tfs"
proof (cases "\<exists>a \<in> set tfs. py_in a cmd")
  case False
  then have "remove_loop 0 cmd tfs = tfs"
    by (intro remove_loop_none) auto
  moreover from False have "filter (\<lambda>tf. \<not> py_in tf cmd) tfs = tfs"
    by (auto simp: filter_id_conv)
  ultimately show ?thesis by simp
next
  case True
  then obtain k where k: "k < length tfs" "py_in (tfs ! k) cmd"
    by (auto simp: in_set_conv_nth)
  have others: "\<not> py_in (tfs ! j) cmd" if "j < length tfs" "j \<noteq> k" for j
  proof
    assume "py_in (tfs ! j) cmd"
    then have "tfs ! j = tfs ! k"
      using one [of "tfs ! j" "tfs ! k"] that k by simp
    with d that k show False
      by (simp add: nth_eq_iff_index_eq)
  qed
  have "remove_loop 0 cmd tfs = take k tfs @ drop (Suc k) tfs"
    by (rule remove_loop_one [OF d k(1) _ k(2)]) (use others in auto)
  also have "\<dots> = filter (\<lambda>tf. \<not> py_in tf cmd) tfs"
    by (rule filter_one_out [symmetric]) (use k others in auto)
  finally show ?thesis .
qed

text \<open>
  The temporary files and the executed commands over the whole loop of a run
  that is not a dry run: every command is executed, and when no failed command
  names two of the (distinct) pending files, the pending files at the end are
  those that no failed command names.
\<close>

lemma run_step_temp_files:
  assumes "\<not> dry_run self"
  shows "rs_temp_files (run_step os self i cmd st) =
           (if py_in ''ERROR'' (popen_stderr os i (snd cmd))
            then remove_loop 0 (snd cmd) (rs_temp_files st) else rs_temp_files st)"
    and "rs_executed (run_step os self i cmd st) = rs_executed st @ [snd cmd]"
  using assms by (simp_all add: run_step_def print_line_def Let_def)

lemma run_loop_executed:
  assumes "\<not> dry_run self"
  shows "rs_executed (run_loop os self i cmds st) = rs_executed st @ map snd cmds"
  by (induction cmds arbitrary: i st) (simp_all add: run_step_temp_files [OF assms])

lemma run_loop_temp_files:
  assumes nd: "\<not> dry_run self"
      and "distinct (rs_temp_files st)"
      and "\<And>c a b. c \<in> set (failed_commands os i cmds) \<Longrightarrow> a \<in> set (rs_temp_files st)
             \<Longrightarrow> b \<in> set (rs_temp_files st) \<Longrightarrow> py_in a c \<Longrightarrow> py_in b c \<Longrightarrow> a = b"
  shows "rs_temp_files (run_loop os self i cmds st) =
           filter (\<lambda>tf. \<not> list_ex (py_in tf) (failed_commands os i cmds)) (rs_temp_files st)"
  using assms(2,3)
proof (induction cmds arbitrary: i st)
  case Nil
  show ?case by simp
next
  case (Cons cmd cmds)
  let ?st = "run_step os self i cmd st"
  show ?case
  proof (cases "py_in ''ERROR'' (popen_stderr os i (snd cmd))")
    case True
    have rm: "remove_loop 0 (snd cmd) (rs_temp_files st)
                = filter (\<lambda>tf. \<not> py_in tf (snd cmd)) (rs_temp_files st)"
      by (rule remove_loop_at_most_one [OF Cons.prems(1)]) (use Cons.prems(2) True in auto)
    have tf: "rs_temp_files ?st = filter (\<lambda>tf. \<not> py_in tf (snd cmd)) (rs_temp_files st)"
      using True rm by (simp add: run_step_temp_files [OF nd])
    have "rs_temp_files (run_loop os self (Suc i) cmds ?st) =
            filter (\<lambda>tf. \<not> list_ex (py_in tf) (failed_commands os (Suc i) cmds))
              (rs_temp_files ?st)"
      by (rule Cons.IH) (use Cons.prems True tf in auto)
    with True tf show ?thesis
      by (auto intro: filter_cong)
  next
    case False
    have tf: "rs_temp_files ?st = rs_temp_files st"
      using False by (simp add: run_step_temp_files [OF nd])
    have "rs_temp_files (run_loop os self (Suc i) cmds ?st) =
            filter (\<lambda>tf. \<not> list_ex (py_in tf) (failed_commands os (Suc i) cmds))
              (rs_temp_files ?st)"
      by (rule Cons.IH) (use Cons.prems False tf in auto)
    with False tf show ?thesis by simp
  qed
qed

lemma plan_commands_porter:
  assumes "plan_commands os self = Inr (c, s, con)"
  shows "\<exists>tfs. s = self\<lparr> temp_files := tfs \<rparr>"
  using assms
  by (auto simp: plan_commands_def Let_def bind_err_eq_Inr split: if_splits prod.splits
       dest: transfer_commands_porter)

lemma at_most_one_filter:
  assumes "length (filter P xs) \<le> 1" "a \<in> set xs" "b \<in> set xs" "P a" "P b"
  shows "a = b"
proof (cases "filter P xs")
  case Nil
  with assms(2,4) show ?thesis
    by (auto simp: filter_empty_conv)
next
  case (Cons y ys)
  with assms(1) have "filter P xs = [y]" by simp
  moreover have "a \<in> set (filter P xs)" "b \<in> set (filter P xs)"
    using assms by simp_all
  ultimately show ?thesis by simp
qed

text \<open>
  Where the loop does what its comment says. Take a run that is not a dry run,
  whose temporary file names are distinct, and in which no failed command (one
  whose error output contains \<^verbatim>\<open>ERROR\<close>) names more than one of them. Then
  the run returns, every planned command is executed in order whatever the
  earlier ones reported, the files left in \<open>self.temp_files\<close> at the end are
  exactly those that no failed command names, and the cleanup deletes exactly
  these (nothing in debug mode).
\<close>

lemma failed_steps_spare_their_files:
  assumes plan: "plan_commands os self = Inr (cmd_list, s, console)"
      and nd: "\<not> dry_run self"
      and dist: "distinct (temp_files s)"
      and one: "list_all (\<lambda>c. length (filter (\<lambda>tf. py_in tf c) (temp_files s)) \<le> 1)
                  (failed_commands os 0 cmd_list)"
  shows "\<exists>r. do_portage os self = Inr r
           \<and> res_executed r = map snd cmd_list
           \<and> res_temp_files r =
               filter (\<lambda>tf. \<not> list_ex (py_in tf) (failed_commands os 0 cmd_list)) (temp_files s)
           \<and> res_removed r = (if debug self then [] else res_temp_files r)"
proof -
  obtain tfs where s: "s = self\<lparr> temp_files := tfs \<rparr>"
    using plan_commands_porter [OF plan] by blast
  then have nds: "\<not> dry_run s" and dbg: "debug s = debug self"
    using nd by simp_all
  let ?st0 = "\<lparr> rs_temp_files = temp_files s, rs_console = console, rs_executed = [] \<rparr>"
  let ?st1 = "if \<not> quiet s then print_line (start_banner (dry_run s)) ?st0 else ?st0"
  have t1: "rs_temp_files ?st1 = temp_files s" and e1: "rs_executed ?st1 = []"
    by (simp_all add: print_line_def)
  have one': "a = b"
    if "c \<in> set (failed_commands os 0 cmd_list)" "a \<in> set (temp_files s)"
       "b \<in> set (temp_files s)" "py_in a c" "py_in b c" for c a b
  proof -
    from one that(1) have "length (filter (\<lambda>tf. py_in tf c) (temp_files s)) \<le> 1"
      by (simp add: list_all_iff)
    then show ?thesis
      using that(2-5) by (rule at_most_one_filter)
  qed
  have tf: "rs_temp_files (run_loop os s 0 cmd_list ?st1) =
              filter (\<lambda>tf. \<not> list_ex (py_in tf) (failed_commands os 0 cmd_list)) (temp_files s)"
    using run_loop_temp_files [OF nds, of ?st1 os 0 cmd_list] dist one'
    unfolding t1 by blast
  have ex: "rs_executed (run_loop os s 0 cmd_list ?st1) = map snd cmd_list"
    using run_loop_executed [OF nds, of os 0 cmd_list ?st1] e1 by simp
  show ?thesis
    using plan tf ex dbg
    by (cases "quiet s"; cases "debug s") (simp_all add: do_portage_def Let_def print_line_def)
qed

lemma failed_steps_spare_their_files_example:
  "plan_commands ex_os_failing
     (ex_porter\<lparr> dry_run := False, ignore_tables := [''logs''] \<rparr>) =
     Inr ([(''Dumping empty schema from src.shop...'',
            ''/usr/bin/mysqldump --lock-tables=false --routines=true --no-data --ignore-table=shop.logs  --result-file=/tmp/a.sql -hsrc -uroot -ppw shop''),
           (''Loading /tmp/a.sql on test.dst...'',
            ''/usr/bin/mysql -hdst -uadm -ppw2 test < /tmp/a.sql''),
           (''Dumping selected data from src.shop...'',
            ''/usr/bin/mysqldump --lock-tables=false --routines=true --no-create-info --complete-insert --ignore-table=shop.logs  --result-file=/tmp/b.sql -hsrc -uroot -ppw shop''),
           (''Loading /tmp/b.sql on test.dst...'',
            ''/usr/bin/mysql -hdst -uadm -ppw2 test < /tmp/b.sql'')],
          ex_porter\<lparr> dry_run := False, ignore_tables := [''logs''],
                      temp_files := [''/tmp/a.sql'', ''/tmp/b.sql''] \<rparr>, [])
   \<and> failed_commands ex_os_failing 0
        [(''Dumping empty schema from src.shop...'',
            ''/usr/bin/mysqldump --lock-tables=false --routines=true --no-data --ignore-table=shop.logs  --result-file=/tmp/a.sql -hsrc -uroot -ppw shop''),
           (''Loading /tmp/a.sql on test.dst...'',
            ''/usr/bin/mysql -hdst -uadm -ppw2 test < /tmp/a.sql''),
           (''Dumping selected data from src.shop...'',
            ''/usr/bin/mysqldump --lock-tables=false --routines=true --no-create-info --complete-insert --ignore-table=shop.logs  --result-file=/tmp/b.sql -hsrc -uroot -ppw shop''),
           (''Loading /tmp/b.sql on test.dst...'',
            ''/usr/bin/mysql -hdst -uadm -ppw2 test < /tmp/b.sql'')] =
       [''/usr/bin/mysqldump --lock-tables=false --routines=true --no-data --ignore-table=shop.logs  --result-file=/tmp/a.sql -hsrc -uroot -ppw shop'']
   \<and> (\<exists>r. do_portage ex_os_failing
              (ex_porter\<lparr> dry_run := False, ignore_tables := [''logs''] \<rparr>) = Inr r
          \<and> res_executed r =
              [''/usr/bin/mysqldump --lock-tables=false --routines=true --no-data --ignore-table=shop.logs  --result-file=/tmp/a.sql -hsrc -uroot -ppw shop'',
               ''/usr/bin/mysql -hdst -uadm -ppw2 test < /tmp/a.sql'',
               ''/usr/bin/mysqldump --lock-tables=false --routines=true --no-create-info --complete-insert --ignore-table=shop.logs  --result-file=/tmp/b.sql -hsrc -uroot -ppw shop'',
               ''/usr/bin/mysql -hdst -uadm -ppw2 test < /tmp/b.sql'']
          \<and> res_temp_files r = [''/tmp/b.sql'']
          \<and> res_removed r = [''/tmp/b.sql''])"
proof -
  let ?p = "ex_porter\<lparr> dry_run := False, ignore_tables := [''logs''] \<rparr>"
  let ?cmds = "[(''Dumping empty schema from src.shop...'',
            ''/usr/bin/mysqldump --lock-tables=false --routines=true --no-data --ignore-table=shop.logs  --result-file=/tmp/a.sql -hsrc -uroot -ppw shop''),
           (''Loading /tmp/a.sql on test.dst...'',
            ''/usr/bin/mysql -hdst -uadm -ppw2 test < /tmp/a.sql''),
           (''Dumping selected data from src.shop...'',
            ''/usr/bin/mysqldump --lock-tables=false --routines=true --no-create-info --complete-insert --ignore-table=shop.logs  --result-file=/tmp/b.sql -hsrc -uroot -ppw shop''),
           (''Loading /tmp/b.sql on test.dst...'',
            ''/usr/bin/mysql -hdst -uadm -ppw2 test < /tmp/b.sql'')]"
  let ?s = "ex_porter\<lparr> dry_run := False, ignore_tables := [''logs''],
                      temp_files := [''/tmp/a.sql'', ''/tmp/b.sql''] \<rparr>"
  have plan: "plan_commands ex_os_failing ?p = Inr (?cmds, ?s, [])"
    by (simp add: eval_defs ex_defs ex_os_failing_def)
  have nd: "\<not> dry_run ?p"
    by simp
  have dist: "distinct (temp_files ?s)"
    by simp
  have failed: "failed_commands ex_os_failing 0 ?cmds = [snd (?cmds ! 0)]"
    by (simp add: ex_defs ex_os_failing_def)
  have one: "list_all (\<lambda>c. length (filter (\<lambda>tf. py_in tf c) (temp_files ?s)) \<le> 1)
               (failed_commands ex_os_failing 0 ?cmds)"
    unfolding failed by simp
  from failed_steps_spare_their_files [OF plan nd dist one]
  obtain r where r: "do_portage ex_os_failing ?p = Inr r"
      "res_executed r = map snd ?cmds"
      "res_temp_files r =
         filter (\<lambda>tf. \<not> list_ex (py_in tf) (failed_commands ex_os_failing 0 ?cmds))
           (temp_files ?s)"
      "res_removed r = (if debug ?p then [] else res_temp_files r)"
    by blast
  have spared: "res_temp_files r = [''/tmp/b.sql'']"
    unfolding r(3) failed by simp
  have removed: "res_removed r = [''/tmp/b.sql'']"
    unfolding r(4) spared by (simp add: ex_porter_def)
  have executed: "res_executed r = map snd ?cmds"
    by (rule r(2))
  have failed': "failed_commands ex_os_failing 0 ?cmds =
       [''/usr/bin/mysqldump --lock-tables=false --routines=true --no-data --ignore-table=shop.logs  --result-file=/tmp/a.sql -hsrc -uroot -ppw shop'']"
    unfolding failed by simp
  show ?thesis
    using plan failed' r(1) executed spared removed by simp
qed


text \<open>
  C7. The claim: in quiet mode a run prints nothing. Three \<^verbatim>\<open>print\<close>
  statements are not under the \<open>quiet\<close> test: the diagnostic of a missing
  update script, the report of a failed step, and the echo of each command in
  debug or dry-run mode. A quiet run with a missing update script and a failing
  first step prints three lines; a quiet dry run prints both commands.
\<close>

theorem C7_quiet_run_prints:
  "map_sum id res_console
     (main_portage ex_os_failing (ex_info\<lparr> pi_update := Some [''missing.sql''] \<rparr>)
        True False False) =
   Inr [''ERROR: missing.sql does not exist!'',
        ''/usr/bin/mysqldump --lock-tables=false --routines=true --complete-insert  --result-file=/tmp/a.sql -hsrc -uroot -ppw shop'',
        ''ERROR 1045: denied'']
   \<and> map_sum id res_console (main_portage ex_os ex_info True False True) =
   Inr [''/usr/bin/mysqldump --lock-tables=false --routines=true --complete-insert  --result-file=/tmp/a.sql -hsrc -uroot -ppw shop'',
        ''/usr/bin/mysql -hdst -uadm -ppw2 test < /tmp/a.sql'']"
  by (simp add: eval_defs ex_defs ex_os_failing_def)

end
